theory Spec2Isabelle
  imports
    Complex_Main
    "HOL-Library.Multiset"
    "HOL-Library.Sublist"
    "HOL-Library.AList"
    "HOL-Library.List_Lexorder"
    "HOL-Library.Char_ord"
begin

section \<open>The connection provider (db.py)\<close>

text \<open>
  The process environment is a dictionary from variable names to values. \<open>load_dotenv()\<close>
  is called with its default \<open>override=False\<close>: a variable of a local \<open>.env\<close> file is
  added only when the process environment does not define it already. The content of
  the \<open>.env\<close> file is a second dictionary (the empty one when there is no file).
\<close>

type_synonym environ = "string \<rightharpoonup> string"

definition load_dotenv :: "environ \<Rightarrow> environ \<Rightarrow> environ" where
  "load_dotenv dotenv env = dotenv ++ env"

definition getenv :: "environ \<Rightarrow> string \<Rightarrow> string \<Rightarrow> string" where
  "getenv env k dflt = (case env k of Some v \<Rightarrow> v | None \<Rightarrow> dflt)"

text \<open>The two defaults; the first is the raw string \<open>localhost\SQL2025\<close>.\<close>

definition default_server :: string where
  "default_server = ''localhost'' @ [CHR 0x5C] @ ''SQL2025''"

definition default_database :: string where
  "default_database = ''AdventureWorks2025''"

definition odbc_str :: "string \<Rightarrow> string \<Rightarrow> string" where
  "odbc_str server database =
     ''DRIVER={ODBC Driver 18 for SQL Server};'' @
     ''SERVER='' @ server @ '';'' @
     ''DATABASE='' @ database @ '';'' @
     ''Trusted_Connection=yes;'' @
     ''TrustServerCertificate=yes;''"

text \<open>
  \<open>urllib.parse.quote_plus\<close>: letters, digits and \<open>_.-~\<close> are kept, a space becomes
  \<open>+\<close>, every other byte becomes \<open>%XX\<close> with upper-case hexadecimal digits.
\<close>

definition always_safe :: "char \<Rightarrow> bool" where
  "always_safe c =
     (let n = (of_char c :: nat) in
        (65 \<le> n \<and> n \<le> 90) \<or> (97 \<le> n \<and> n \<le> 122) \<or> (48 \<le> n \<and> n \<le> 57) \<or>
        c \<in> set ''_.-~'')"

definition hex_digit :: "nat \<Rightarrow> char" where
  "hex_digit n = ''0123456789ABCDEF'' ! (n mod 16)"

definition quote_char :: "char \<Rightarrow> string" where
  "quote_char c =
     (if always_safe c then [c]
      else if c = CHR '' '' then ''+''
      else [CHR ''%'', hex_digit (of_char c div 16), hex_digit (of_char c)])"

definition quote_plus :: "string \<Rightarrow> string" where
  "quote_plus s = concat (map quote_char s)"

text \<open>
  \<open>make_engine\<close> reads the two settings and hands one URL to \<open>create_engine\<close>; the
  engine is identified with that URL. \<open>connection_string\<close> is the value of the local
  \<open>odbc_str\<close> of \<open>make_engine\<close>.
\<close>

definition connection_string :: "environ \<Rightarrow> environ \<Rightarrow> string" where
  "connection_string dotenv env =
     (let e = load_dotenv dotenv env;
          server = getenv e ''SQL_SERVER'' default_server;
          database = getenv e ''SQL_DATABASE'' default_database
      in odbc_str server database)"

definition make_engine :: "environ \<Rightarrow> environ \<Rightarrow> string" where
  "make_engine dotenv env =
     ''mssql+pyodbc:///?odbc_connect='' @ quote_plus (connection_string dotenv env)"

section \<open>Tables (pandas dataframes) and the values in them\<close>

text \<open>
  A cell of a table is an integer, a string, a calendar date (year, month, day) or the
  missing value (\<open>None\<close>, \<open>NaN\<close>, \<open>NaT\<close>). Numeric values are Python integers; the
  \<open>float(...)\<close> conversions of the source are exact on them below \<open>2^53\<close> and are carried
  as the integer itself.
\<close>

type_synonym date = "nat \<times> nat \<times> nat"

datatype cell = Num int | Str string | Date date | Null

datatype error =
    KeyError string
  | ValueError string
  | TypeError
  | IndexError
  | AttributeError

text \<open>
  A dataframe has one row label per row (its index) and named columns, kept in column
  order; a column is looked up by name. Column names are taken to be distinct, as in
  the result of a query that names its columns apart, and the index to have no name.
\<close>

record dataframe =
  index :: "int list"
  columns :: "(string \<times> cell list) list"

subsection \<open>Comparison of cells\<close>

text \<open>
  Python compares integers with integers, strings with strings (lexicographically by
  code point) and dates with dates; a comparison across kinds raises a type error.
\<close>

fun cell_le :: "cell \<Rightarrow> cell \<Rightarrow> bool" where
  "cell_le (Num a) (Num b) = (a \<le> b)"
| "cell_le (Str a) (Str b) = (a \<le> b)"
| "cell_le (Date (y1, m1, d1)) (Date (y2, m2, d2)) =
     (y1 < y2 \<or> (y1 = y2 \<and> (m1 < m2 \<or> (m1 = m2 \<and> d1 \<le> d2))))"
| "cell_le _ _ = False"

definition cell_lt :: "cell \<Rightarrow> cell \<Rightarrow> bool" where
  "cell_lt a b = (cell_le a b \<and> a \<noteq> b)"

fun kind :: "cell \<Rightarrow> nat" where
  "kind (Num _) = 0"
| "kind (Str _) = 1"
| "kind (Date _) = 2"
| "kind Null = 3"

definition comparable :: "cell list \<Rightarrow> bool" where
  "comparable ks = (case ks of [] \<Rightarrow> True | k # rest \<Rightarrow> list_all (\<lambda>c. kind c = kind k) rest)"

subsection \<open>Text of values\<close>

fun dec :: "nat \<Rightarrow> string" where
  "dec n = (if n < 10 then [''0123456789'' ! n]
            else dec (n div 10) @ [''0123456789'' ! (n mod 10)])"

definition show_int :: "int \<Rightarrow> string" where
  "show_int n = (if n < 0 then ''-'' @ dec (nat (- n)) else dec (nat n))"

definition zpad :: "nat \<Rightarrow> string \<Rightarrow> string" where
  "zpad k s = replicate (k - length s) (CHR ''0'') @ s"

text \<open>\<open>astype(str)\<close> on a column: the \<open>str\<close> of every cell.\<close>

fun py_str :: "cell \<Rightarrow> string" where
  "py_str (Num n) = show_int n"
| "py_str (Str s) = s"
| "py_str (Date (y, m, d)) = zpad 4 (dec y) @ ''-'' @ zpad 2 (dec m) @ ''-'' @ zpad 2 (dec d)"
| "py_str Null = ''nan''"

definition astype_str :: "cell list \<Rightarrow> string list" where
  "astype_str v = map py_str v"

text \<open>\<open>strftime("%Y-%m")\<close>.\<close>

definition strftime_ym :: "date \<Rightarrow> string" where
  "strftime_ym dt = (case dt of (y, m, d) \<Rightarrow> zpad 4 (dec y) @ ''-'' @ zpad 2 (dec m))"

text \<open>
  The format \<open>{v:,.0f}\<close>: no decimals, a comma between groups of three digits;
  \<open>None\<close> stands for the float \<open>nan\<close>.
\<close>

fun commas :: "string \<Rightarrow> string" where
  "commas s = (if length s \<le> 3 then s
               else commas (take (length s - 3) s) @ '','' @ drop (length s - 3) s)"

definition fmt_f0 :: "int option \<Rightarrow> string" where
  "fmt_f0 v = (case v of None \<Rightarrow> ''nan''
               | Some n \<Rightarrow> (if n < 0 then ''-'' else '''') @ commas (dec (nat \<bar>n\<bar>)))"

text \<open>\<open>a or b\<close> on an optional string: \<open>None\<close> and the empty string are falsy.\<close>

definition py_or :: "string option \<Rightarrow> string \<Rightarrow> string" where
  "py_or a b = (case a of None \<Rightarrow> b | Some s \<Rightarrow> if s = [] then b else s)"

section \<open>The world: dataframe objects and the calls made to the display\<close>

text \<open>
  Every call of the chart library into matplotlib or IPython is recorded, with its
  arguments, in the order it is made. The float-valued bar positions of
  \<open>grouped_bar_wide\<close> are the image of integers: \<open>GroupBar i n m v lab\<close> is
  \<open>ax.bar(arange(m) + i * (0.8 / max(n, 1)), v, width=0.8 / max(n, 1), label=lab)\<close> and
  \<open>SetXTicks m n\<close> is \<open>ax.set_xticks(arange(m) + (0.8 / max(n, 1)) * (n - 1) / 2)\<close>.
  The recorded calls are taken to return normally.
\<close>

datatype event =
    Figure "int \<times> int"
  | Bar "string list" "cell list"
  | Barh "string list" "cell list"
  | InvertYAxis
  | Plot "cell list" "cell list" string
  | GroupBar nat nat nat "cell list" string
  | Scatter "cell list" "cell list" rat
  | SetTitle string
  | SetXLabel string
  | SetYLabel string
  | XTicksRotation int
  | MonthLocator int
  | DateFormatter string
  | SetXTicks nat nat
  | SetXTickLabels "string list" int
  | Legend "string option"
  | TightLayout
  | Show
  | DisplayMarkdown string

text \<open>
  Dataframes are objects: a variable holds a reference (a position in \<open>frames\<close>), and
  \<open>df.copy()\<close> and \<open>sort_values\<close> create a new object while \<open>d[c] = v\<close> changes the
  object \<open>d\<close> refers to. A computation takes the world and returns a value or the
  exception raised, with the world it leaves behind.
\<close>

record world =
  frames :: "dataframe list"
  trace :: "event list"

type_synonym 'a m = "world \<Rightarrow> (error + 'a) \<times> world"

definition ret :: "'a \<Rightarrow> 'a m" where
  "ret x w = (Inr x, w)"

definition lift :: "error + 'a \<Rightarrow> 'a m" where
  "lift r w = (r, w)"

definition bnd :: "'a m \<Rightarrow> ('a \<Rightarrow> 'b m) \<Rightarrow> 'b m" where
  "bnd c f w = (case c w of (Inl e, w') \<Rightarrow> (Inl e, w') | (Inr x, w') \<Rightarrow> f x w')"

definition emit :: "event \<Rightarrow> unit m" where
  "emit e w = (Inr (), w\<lparr>trace := trace w @ [e]\<rparr>)"

fun emits :: "event list \<Rightarrow> unit m" where
  "emits [] = ret ()"
| "emits (e # es) = bnd (emit e) (\<lambda>_. emits es)"

subsection \<open>The dataframe operations the source calls\<close>

definition df_copy :: "nat \<Rightarrow> nat m" where
  "df_copy a w = (Inr (length (frames w)), w\<lparr>frames := frames w @ [frames w ! a]\<rparr>)"

definition df_index :: "nat \<Rightarrow> int list m" where
  "df_index a w = (Inr (index (frames w ! a)), w)"

text \<open>\<open>d[c]\<close>: the values of column \<open>c\<close>, or a key error.\<close>

definition getitem :: "nat \<Rightarrow> string \<Rightarrow> cell list m" where
  "getitem a c w =
     (case map_of (columns (frames w ! a)) c of
        None \<Rightarrow> (Inl (KeyError c), w)
      | Some v \<Rightarrow> (Inr v, w))"

text \<open>\<open>d[c] = v\<close>: replaces column \<open>c\<close> in place, or appends it as the last column.\<close>

definition setitem :: "nat \<Rightarrow> string \<Rightarrow> cell list \<Rightarrow> unit m" where
  "setitem a c v w =
     (Inr (), w\<lparr>frames := (frames w)[a :=
        (frames w ! a)\<lparr>columns := AList.update c v (columns (frames w ! a))\<rparr>]\<rparr>)"

text \<open>
  \<open>pd.to_datetime\<close>: dates and missing values are kept; any other value goes through
  the library's conversion \<open>conv\<close> (string parsing, epoch numbers), which is a parameter
  and either yields a date or raises.
\<close>

definition to_datetime_cell :: "(cell \<Rightarrow> error + date) \<Rightarrow> cell \<Rightarrow> error + cell" where
  "to_datetime_cell conv c =
     (case c of
        Date dt \<Rightarrow> Inr (Date dt)
      | Null \<Rightarrow> Inr Null
      | _ \<Rightarrow> (case conv c of Inl e \<Rightarrow> Inl e | Inr dt \<Rightarrow> Inr (Date dt)))"

fun to_datetime :: "(cell \<Rightarrow> error + date) \<Rightarrow> cell list \<Rightarrow> error + cell list" where
  "to_datetime conv [] = Inr []"
| "to_datetime conv (c # cs) =
     (case to_datetime_cell conv c of
        Inl e \<Rightarrow> Inl e
      | Inr v \<Rightarrow> (case to_datetime conv cs of Inl e \<Rightarrow> Inl e | Inr vs \<Rightarrow> Inr (v # vs)))"

subsection \<open>Sorting a frame by a column\<close>

text \<open>
  \<open>sort_values(by, ascending)\<close> is called without \<open>kind\<close>, so the library sorts with its
  default kind \<open>quicksort\<close>, which its documentation does not give as stable. The sort of
  the non-missing keys is therefore a parameter \<open>argsort\<close>, of which \<open>sorts\<close> states what
  every kind guarantees (the result is a permutation of the positions that puts the
  keys in non-decreasing order) and \<open>stable_on\<close> what only a stable kind guarantees.

  The library's \<open>nargsort\<close> sets the missing keys aside, sorts the others (for a
  descending sort: reverses them, sorts, and reverses the result) and puts the missing
  keys last (\<open>na_position='last'\<close>).
\<close>

definition non_nan_idx :: "cell list \<Rightarrow> bool \<Rightarrow> nat list" where
  "non_nan_idx items ascending =
     (let idx = filter (\<lambda>i. items ! i \<noteq> Null) [0..<length items]
      in if ascending then idx else rev idx)"

definition nan_idx :: "cell list \<Rightarrow> nat list" where
  "nan_idx items = filter (\<lambda>i. items ! i = Null) [0..<length items]"

definition non_nans :: "cell list \<Rightarrow> bool \<Rightarrow> cell list" where
  "non_nans items ascending = map ((!) items) (non_nan_idx items ascending)"

definition nargsort :: "(cell list \<Rightarrow> nat list) \<Rightarrow> cell list \<Rightarrow> bool \<Rightarrow> nat list" where
  "nargsort argsort items ascending =
     (let indexer = map ((!) (non_nan_idx items ascending)) (argsort (non_nans items ascending))
      in (if ascending then indexer else rev indexer) @ nan_idx items)"

definition sorts :: "(cell list \<Rightarrow> nat list) \<Rightarrow> cell list \<Rightarrow> bool" where
  "sorts argsort ks =
     (sort (argsort ks) = [0..<length ks] \<and> sorted_wrt cell_le (map ((!) ks) (argsort ks)))"

definition stable_on :: "(cell list \<Rightarrow> nat list) \<Rightarrow> cell list \<Rightarrow> bool" where
  "stable_on argsort ks = sorted_wrt (\<lambda>i j. ks ! i = ks ! j \<longrightarrow> i < j) (argsort ks)"

definition take_rows :: "nat list \<Rightarrow> dataframe \<Rightarrow> dataframe" where
  "take_rows p df =
     \<lparr>index = map ((!) (index df)) p,
      columns = map (\<lambda>cv. (fst cv, map ((!) (snd cv)) p)) (columns df)\<rparr>"

definition sort_values :: "(cell list \<Rightarrow> nat list) \<Rightarrow> nat \<Rightarrow> string \<Rightarrow> bool \<Rightarrow> nat m" where
  "sort_values argsort a by_col ascending w =
     (let df = frames w ! a in
      case map_of (columns df) by_col of
        None \<Rightarrow> (Inl (KeyError by_col), w)
      | Some k \<Rightarrow>
          if \<not> comparable (non_nans k ascending) then (Inl TypeError, w)
          else (Inr (length (frames w)),
                w\<lparr>frames := frames w @ [take_rows (nargsort argsort k ascending) df]\<rparr>))"

text \<open>
  A sort by insertion that meets \<open>sorts\<close> and keeps equal keys in input order.
\<close>

fun ins_idx :: "cell list \<Rightarrow> nat \<Rightarrow> nat list \<Rightarrow> nat list" where
  "ins_idx ks i [] = [i]"
| "ins_idx ks i (j # js) =
     (if cell_le (ks ! i) (ks ! j) then i # j # js else j # ins_idx ks i js)"

definition argsort_stable :: "cell list \<Rightarrow> nat list" where
  "argsort_stable ks = foldr (ins_idx ks) [0..<length ks] []"

subsection \<open>Rows by position and by label, extremes of a column\<close>

definition row_at :: "dataframe \<Rightarrow> nat \<Rightarrow> (string \<times> cell) list" where
  "row_at df i = map (\<lambda>cv. (fst cv, snd cv ! i)) (columns df)"

text \<open>\<open>d.iloc[i]\<close>: the row at position \<open>i\<close>, a negative \<open>i\<close> counting from the end.\<close>

definition iloc :: "nat \<Rightarrow> int \<Rightarrow> (string \<times> cell) list m" where
  "iloc a i w =
     (let df = frames w ! a;
          n = int (length (index df));
          j = (if i < 0 then n + i else i)
      in if 0 \<le> j \<and> j < n then (Inr (row_at df (nat j)), w) else (Inl IndexError, w))"

text \<open>
  \<open>d.loc[label]\<close>: the row with that label when the label occurs once, a sub-frame of
  all the rows with that label when it occurs several times.
\<close>

datatype loc_result = RowSeries "(string \<times> cell) list" | SubFrame "string list"

definition loc :: "nat \<Rightarrow> int \<Rightarrow> loc_result m" where
  "loc a label w =
     (let df = frames w ! a in
      case filter (\<lambda>i. index df ! i = label) [0..<length (index df)] of
        [] \<Rightarrow> (Inl (KeyError (show_int label)), w)
      | [i] \<Rightarrow> (Inr (RowSeries (row_at df i)), w)
      | _ \<Rightarrow> (Inr (SubFrame (map fst (columns df))), w))"

text \<open>A value read out of a row is a scalar; read out of a sub-frame it is a column.\<close>

datatype pyval = Scalar cell | SeriesVal

definition series_getitem :: "(string \<times> cell) list \<Rightarrow> string \<Rightarrow> error + pyval" where
  "series_getitem r c = (case map_of r c of None \<Rightarrow> Inl (KeyError c) | Some v \<Rightarrow> Inr (Scalar v))"

definition loc_getitem :: "loc_result \<Rightarrow> string \<Rightarrow> error + pyval" where
  "loc_getitem r c =
     (case r of
        RowSeries row \<Rightarrow> series_getitem row c
      | SubFrame cs \<Rightarrow> if c \<in> set cs then Inr SeriesVal else Inl (KeyError c))"

text \<open>
  \<open>idxmax()\<close> and \<open>idxmin()\<close>: the label of the first row that holds the largest
  (smallest) non-missing value. They are defined on numeric and on date columns; a
  column with no value raises a value error.
\<close>

fun argbest :: "(cell \<Rightarrow> cell \<Rightarrow> bool) \<Rightarrow> cell list \<Rightarrow> nat \<Rightarrow> nat list \<Rightarrow> nat" where
  "argbest better v b [] = b"
| "argbest better v b (i # rest) =
     argbest better v (if better (v ! i) (v ! b) then i else b) rest"

definition is_num :: "cell \<Rightarrow> bool" where
  "is_num c = (case c of Num _ \<Rightarrow> True | _ \<Rightarrow> False)"

definition is_date :: "cell \<Rightarrow> bool" where
  "is_date c = (case c of Date _ \<Rightarrow> True | _ \<Rightarrow> False)"

definition idx_extreme :: "bool \<Rightarrow> int list \<Rightarrow> cell list \<Rightarrow> error + int" where
  "idx_extreme want_max idx v =
     (case filter (\<lambda>i. v ! i \<noteq> Null) [0..<length v] of
        [] \<Rightarrow> Inl (ValueError (if want_max then ''attempt to get argmax of an empty sequence''
                                else ''attempt to get argmin of an empty sequence''))
      | i # rest \<Rightarrow>
          if \<not> (list_all (\<lambda>j. is_num (v ! j)) (i # rest) \<or>
                 list_all (\<lambda>j. is_date (v ! j)) (i # rest))
          then Inl TypeError
          else Inr (idx ! argbest (if want_max then (\<lambda>a b. cell_lt b a) else cell_lt) v i rest))"

definition idxmax :: "int list \<Rightarrow> cell list \<Rightarrow> error + int" where
  "idxmax = idx_extreme True"

definition idxmin :: "int list \<Rightarrow> cell list \<Rightarrow> error + int" where
  "idxmin = idx_extreme False"

text \<open>
  \<open>float(v)\<close>: an integer converts, the missing value is \<open>nan\<close> (\<open>None\<close> here), a date
  and a column raise a type error. A string never reaches \<open>float\<close> in the source
  (\<open>idxmax\<close> raises on a string column first).
\<close>

definition py_float :: "pyval \<Rightarrow> error + int option" where
  "py_float v =
     (case v of
        Scalar (Num n) \<Rightarrow> Inr (Some n)
      | Scalar Null \<Rightarrow> Inr None
      | Scalar (Str s) \<Rightarrow> Inl (ValueError ''could not convert string to float'')
      | Scalar (Date dt) \<Rightarrow> Inl TypeError
      | SeriesVal \<Rightarrow> Inl TypeError)"

text \<open>\<open>a >= b\<close> on floats: false as soon as one side is \<open>nan\<close>.\<close>

definition float_ge :: "int option \<Rightarrow> int option \<Rightarrow> bool" where
  "float_ge a b = (case (a, b) of (Some x, Some y) \<Rightarrow> y \<le> x | _ \<Rightarrow> False)"

section \<open>The chart library (plot.py)\<close>

text \<open>
  Each function takes the reference \<open>df\<close> of the caller's dataframe. Default values of
  optional arguments are the caller's business: every argument is explicit here.
\<close>

definition bar_vertical ::
  "(cell list \<Rightarrow> nat list) \<Rightarrow> nat \<Rightarrow> string \<Rightarrow> string \<Rightarrow> string \<Rightarrow> string option \<Rightarrow>
   string option \<Rightarrow> string option \<Rightarrow> bool \<Rightarrow> int \<times> int \<Rightarrow> int \<Rightarrow> unit m" where
  "bar_vertical argsort df x y title xlabel ylabel sort_by ascending figsize rotate_x =
     bnd (df_copy df) (\<lambda>d0.
     bnd (case sort_by of
            None \<Rightarrow> ret d0
          | Some s \<Rightarrow> if s = [] then ret d0 else sort_values argsort d0 s ascending) (\<lambda>d.
     bnd (emit (Figure figsize)) (\<lambda>_.
     bnd (getitem d x) (\<lambda>xs.
     bnd (getitem d y) (\<lambda>ys.
     emits [Bar (astype_str xs) ys,
            SetTitle title,
            SetXLabel (py_or xlabel x),
            SetYLabel (py_or ylabel y),
            XTicksRotation rotate_x,
            TightLayout,
            Show])))))"

definition bar_horizontal ::
  "(cell list \<Rightarrow> nat list) \<Rightarrow> nat \<Rightarrow> string \<Rightarrow> string \<Rightarrow> string \<Rightarrow> string option \<Rightarrow>
   string option \<Rightarrow> bool \<Rightarrow> int \<times> int \<Rightarrow> unit m" where
  "bar_horizontal argsort df x y title xlabel ylabel sort_desc figsize =
     bnd (df_copy df) (\<lambda>d0.
     bnd (sort_values argsort d0 x (\<not> sort_desc)) (\<lambda>d.
     bnd (emit (Figure figsize)) (\<lambda>_.
     bnd (getitem d y) (\<lambda>ys.
     bnd (getitem d x) (\<lambda>xs.
     emits [Barh (astype_str ys) xs,
            InvertYAxis,
            SetTitle title,
            SetXLabel (py_or xlabel x),
            SetYLabel (py_or ylabel y),
            TightLayout,
            Show])))))"

definition line_plot_monthly ::
  "(cell \<Rightarrow> error + date) \<Rightarrow> (cell list \<Rightarrow> nat list) \<Rightarrow> nat \<Rightarrow> string \<Rightarrow> string \<Rightarrow> string \<Rightarrow>
   string \<Rightarrow> string \<Rightarrow> int \<Rightarrow> int \<times> int \<Rightarrow> string \<Rightarrow> unit m" where
  "line_plot_monthly conv argsort df date_col value_col title xlabel ylabel month_interval
       figsize marker =
     bnd (df_copy df) (\<lambda>d0.
     bnd (getitem d0 date_col) (\<lambda>c.
     bnd (lift (to_datetime conv c)) (\<lambda>c'.
     bnd (setitem d0 date_col c') (\<lambda>_.
     bnd (sort_values argsort d0 date_col True) (\<lambda>d.
     bnd (emit (Figure figsize)) (\<lambda>_.
     bnd (getitem d date_col) (\<lambda>xs.
     bnd (getitem d value_col) (\<lambda>ys.
     emits [Plot xs ys marker,
            SetTitle title,
            SetXLabel xlabel,
            SetYLabel ylabel,
            MonthLocator month_interval,
            DateFormatter ''%Y-%m'',
            XTicksRotation 45,
            TightLayout,
            Show]))))))))"

text \<open>The loop of \<open>grouped_bar_wide\<close> over \<open>enumerate(zip(y_cols, legend_labels))\<close>.\<close>

fun bars_loop :: "nat \<Rightarrow> nat \<Rightarrow> nat \<Rightarrow> nat \<Rightarrow> (string \<times> string) list \<Rightarrow> unit m" where
  "bars_loop d m n i [] = ret ()"
| "bars_loop d m n i (cl # rest) =
     bnd (getitem d (fst cl)) (\<lambda>v.
     bnd (emit (GroupBar i n m v (snd cl))) (\<lambda>_.
     bars_loop d m n (Suc i) rest))"

definition grouped_bar_wide ::
  "nat \<Rightarrow> string \<Rightarrow> string list \<Rightarrow> string \<Rightarrow> string option \<Rightarrow> string \<Rightarrow> string \<Rightarrow>
   int \<times> int \<Rightarrow> int \<Rightarrow> string list option \<Rightarrow> unit m" where
  "grouped_bar_wide df x y_cols title xlabel ylabel legend_title figsize rotate_x y_col_labels =
     bnd (df_copy df) (\<lambda>d.
     bnd (getitem d x) (\<lambda>xs.
     (let labels = astype_str xs;
          n = length y_cols;
          legend_labels = (case y_col_labels of Some l \<Rightarrow> l | None \<Rightarrow> y_cols)
      in if length legend_labels \<noteq> n
         then lift (Inl (ValueError ''y_col_labels must have the same length as y_cols''))
         else
           bnd (emit (Figure figsize)) (\<lambda>_.
           bnd (bars_loop d (length labels) n 0 (zip y_cols legend_labels)) (\<lambda>_.
           emits [SetXTicks (length labels) n,
                  SetXTickLabels labels rotate_x,
                  SetTitle title,
                  SetXLabel (py_or xlabel x),
                  SetYLabel ylabel,
                  Legend (if legend_title \<noteq> [] then Some legend_title else None),
                  TightLayout,
                  Show])))))"

definition scatter_plot ::
  "nat \<Rightarrow> string \<Rightarrow> string \<Rightarrow> string \<Rightarrow> string option \<Rightarrow> string option \<Rightarrow> int \<times> int \<Rightarrow> rat \<Rightarrow>
   unit m" where
  "scatter_plot df x y title xlabel ylabel figsize alpha =
     bnd (emit (Figure figsize)) (\<lambda>_.
     bnd (getitem df x) (\<lambda>xs.
     bnd (getitem df y) (\<lambda>ys.
     emits [Scatter xs ys alpha,
            SetTitle title,
            SetXLabel (py_or xlabel x),
            SetYLabel (py_or ylabel y),
            TightLayout,
            Show])))"

text \<open>
  The local function \<open>_fmt_month\<close> of \<open>insight_monthly_trend\<close>: \<open>to_datetime\<close>, then
  \<open>strftime("%Y-%m")\<close>. The missing date has no \<open>strftime\<close> (a value error), a column
  has no such attribute.
\<close>

definition fmt_month :: "(cell \<Rightarrow> error + date) \<Rightarrow> pyval \<Rightarrow> error + string" where
  "fmt_month conv v =
     (case v of
        SeriesVal \<Rightarrow> Inl AttributeError
      | Scalar c \<Rightarrow>
          (case to_datetime_cell conv c of
             Inl e \<Rightarrow> Inl e
           | Inr (Date dt) \<Rightarrow> Inr (strftime_ym dt)
           | Inr _ \<Rightarrow> Inl (ValueError ''NaTType does not support strftime'')))"

text \<open>What the insight paragraph reports, and the Markdown text built from it.\<close>

record insight =
  direction :: string
  start_month :: string
  start_val :: "int option"
  end_month :: string
  end_val :: "int option"
  peak_month :: string
  peak_val :: "int option"
  low_month :: string
  low_val :: "int option"

definition insight_text :: "insight \<Rightarrow> string" where
  "insight_text r =
     ''**Insight:** The overall monthly sales trend is **'' @ direction r @
     ''** from **'' @ start_month r @ ''** ('' @ fmt_f0 (start_val r) @
     '') to **'' @ end_month r @ ''** ('' @ fmt_f0 (end_val r) @ '').  '' @ [CHR 0x0A] @
     ''- **Highest month:** **'' @ peak_month r @ ''** ('' @ fmt_f0 (peak_val r) @
     '')  '' @ [CHR 0x0A] @
     ''- **Lowest month:** **'' @ low_month r @ ''** ('' @ fmt_f0 (low_val r) @ '')''"

definition insight_monthly_trend ::
  "(cell \<Rightarrow> error + date) \<Rightarrow> nat \<Rightarrow> string \<Rightarrow> string \<Rightarrow> unit m" where
  "insight_monthly_trend conv df date_col value_col =
     bnd (df_copy df) (\<lambda>d.
     bnd (getitem d date_col) (\<lambda>c.
     bnd (lift (to_datetime conv c)) (\<lambda>c'.
     bnd (setitem d date_col c') (\<lambda>_.
     bnd (df_index d) (\<lambda>ix.
     bnd (getitem d value_col) (\<lambda>v1.
     bnd (lift (idxmax ix v1)) (\<lambda>lmax.
     bnd (loc d lmax) (\<lambda>peak.
     bnd (getitem d value_col) (\<lambda>v2.
     bnd (lift (idxmin ix v2)) (\<lambda>lmin.
     bnd (loc d lmin) (\<lambda>low.
     bnd (iloc d 0) (\<lambda>r1.
     bnd (lift (series_getitem r1 date_col)) (\<lambda>sd.
     bnd (lift (fmt_month conv sd)) (\<lambda>sm.
     bnd (iloc d (- 1)) (\<lambda>r2.
     bnd (lift (series_getitem r2 date_col)) (\<lambda>ed.
     bnd (lift (fmt_month conv ed)) (\<lambda>em.
     bnd (iloc d 0) (\<lambda>r3.
     bnd (lift (series_getitem r3 value_col)) (\<lambda>sv0.
     bnd (lift (py_float sv0)) (\<lambda>sv.
     bnd (iloc d (- 1)) (\<lambda>r4.
     bnd (lift (series_getitem r4 value_col)) (\<lambda>ev0.
     bnd (lift (py_float ev0)) (\<lambda>ev.
     bnd (lift (loc_getitem peak date_col)) (\<lambda>pd.
     bnd (lift (fmt_month conv pd)) (\<lambda>pm.
     bnd (lift (loc_getitem peak value_col)) (\<lambda>pv0.
     bnd (lift (py_float pv0)) (\<lambda>pv.
     bnd (lift (loc_getitem low date_col)) (\<lambda>ld.
     bnd (lift (fmt_month conv ld)) (\<lambda>lm.
     bnd (lift (loc_getitem low value_col)) (\<lambda>lv0.
     bnd (lift (py_float lv0)) (\<lambda>lv.
     emit (DisplayMarkdown (insight_text
       \<lparr>direction = (if float_ge ev sv then ''upward'' else ''downward''),
        start_month = sm, start_val = sv, end_month = em, end_val = ev,
        peak_month = pm, peak_val = pv, low_month = lm, low_val = lv\<rparr>))
     )))))))))))))))))))))))))))))))"

section \<open>Orderings the claims speak of, and example tables\<close>

text \<open>
  A key sequence is ordered in a direction when its non-missing keys are in non-decreasing
  (ascending) or non-increasing (descending) order and all missing keys come last.
\<close>

definition ordered_by :: "bool \<Rightarrow> cell list \<Rightarrow> bool" where
  "ordered_by ascending ks =
     (let nn = filter (\<lambda>k. k \<noteq> Null) ks in
        ks = nn @ replicate (length ks - length nn) Null \<and>
        sorted_wrt (if ascending then cell_le else (\<lambda>a b. cell_le b a)) nn)"

text \<open>
  A sequence \<open>p\<close> of row positions keeps ties in input order when rows with equal keys
  appear in it by increasing input position.
\<close>

definition keeps_ties :: "cell list \<Rightarrow> nat list \<Rightarrow> bool" where
  "keeps_ties ks p = sorted_wrt (\<lambda>i j. ks ! i = ks ! j \<longrightarrow> i < j) p"

definition sales_wide :: dataframe where
  "sales_wide = \<lparr>index = [0, 1],
                 columns = [(''Region'', [Str ''East'', Str ''West'']),
                            (''Q1'', [Num 10, Num 20]),
                            (''Q2'', [Num 30, Num 40])]\<rparr>"

definition region_sales :: dataframe where
  "region_sales =
     \<lparr>index = [0, 1, 2, 3],
      columns = [(''Region'', [Str ''East'', Str ''West'', Str ''North'', Str ''South'']),
                 (''Sales'', [Num 20, Num 50, Num 20, Num 30])]\<rparr>"

text \<open>
  A sample of the library's date conversion, for the examples: it knows one string.
\<close>

definition conv_sample :: "cell \<Rightarrow> error + date" where
  "conv_sample c =
     (if c = Str ''2024-02-01'' then Inr (2024, 2, 1)
      else Inl (ValueError ''unknown datetime string format''))"

definition monthly_sales :: dataframe where
  "monthly_sales =
     \<lparr>index = [0, 1, 2, 3],
      columns = [(''MonthStart'',
                  [Date (2024, 1, 1), Str ''2024-02-01'', Date (2024, 3, 1), Date (2024, 4, 1)]),
                 (''TotalSales'', [Num 100, Num 150, Num 90, Num 200])]\<rparr>"

definition monthly_shuffled :: dataframe where
  "monthly_shuffled =
     \<lparr>index = [0, 1, 2, 3],
      columns = [(''MonthStart'',
                  [Date (2024, 3, 1), Date (2024, 1, 1), Date (2024, 4, 1), Str ''2024-02-01'']),
                 (''TotalSales'', [Num 90, Num 100, Num 200, Num 150])]\<rparr>"

text \<open>
  A computation keeps the first \<open>n\<close> dataframe objects when, started in any world with at
  least \<open>n\<close> objects, it ends (normally or with an exception) in a world whose first \<open>n\<close>
  objects are the same.
\<close>

definition keeps_frames :: "nat \<Rightarrow> 'a m \<Rightarrow> bool" where
  "keeps_frames n c =
     (\<forall>w. n \<le> length (frames w) \<longrightarrow>
          n \<le> length (frames (snd (c w))) \<and> take n (frames (snd (c w))) = take n (frames w))"

text \<open>
  The row positions that \<open>idxmax\<close> and \<open>idxmin\<close> pick on a column of integers without
  missing values.
\<close>

definition peak_pos :: "int list \<Rightarrow> nat" where
  "peak_pos ns = argbest (\<lambda>a b. cell_lt b a) (map Num ns) 0 [1..<length ns]"

definition low_pos :: "int list \<Rightarrow> nat" where
  "low_pos ns = argbest cell_lt (map Num ns) 0 [1..<length ns]"

section \<open>Properties of the connection provider\<close>

lemma getenv_load_dotenv_set:
  "env k = Some v \<Longrightarrow> getenv (load_dotenv dotenv env) k dflt = v"
  by (simp add: getenv_def load_dotenv_def)

lemma getenv_load_dotenv_unset:
  "env k = None \<Longrightarrow> dotenv k = None \<Longrightarrow> getenv (load_dotenv dotenv env) k dflt = dflt"
  by (simp add: getenv_def load_dotenv_def map_add_def)

text \<open>
  C6. With \<open>SQL_DATABASE=TestDB\<close> in the process environment the connection string
  carries \<open>DATABASE=TestDB\<close> in its database field, whatever the \<open>.env\<close> file says; when
  neither the environment nor the \<open>.env\<close> file sets \<open>SQL_SERVER\<close> and \<open>SQL_DATABASE\<close>
  the defaults \<open>localhost\SQL2025\<close> and \<open>AdventureWorks2025\<close> are used; and every
  connection string ends with \<open>Trusted_Connection=yes;TrustServerCertificate=yes;\<close>.
  The engine is created from exactly this string, URL-quoted.
\<close>

theorem make_engine_connection_string:
  "(env ''SQL_DATABASE'' = Some ''TestDB'' \<longrightarrow>
      connection_string dotenv env =
        odbc_str (getenv (load_dotenv dotenv env) ''SQL_SERVER'' default_server) ''TestDB'' \<and>
      sublist ''DATABASE=TestDB;'' (connection_string dotenv env)) \<and>
   (env ''SQL_SERVER'' = None \<and> dotenv ''SQL_SERVER'' = None \<and>
    env ''SQL_DATABASE'' = None \<and> dotenv ''SQL_DATABASE'' = None \<longrightarrow>
      connection_string dotenv env =
        ''DRIVER={ODBC Driver 18 for SQL Server};SERVER=localhost'' @ [CHR 0x5C] @
        ''SQL2025;DATABASE=AdventureWorks2025;Trusted_Connection=yes;TrustServerCertificate=yes;'') \<and>
   suffix ''Trusted_Connection=yes;TrustServerCertificate=yes;'' (connection_string dotenv env) \<and>
   make_engine dotenv env =
     ''mssql+pyodbc:///?odbc_connect='' @ quote_plus (connection_string dotenv env)"
proof -
  have db: "connection_string dotenv env =
        odbc_str (getenv (load_dotenv dotenv env) ''SQL_SERVER'' default_server) ''TestDB''"
    if "env ''SQL_DATABASE'' = Some ''TestDB''"
    using that by (simp add: connection_string_def getenv_load_dotenv_set)
  have sub: "sublist ''DATABASE=TestDB;'' (odbc_str s ''TestDB'')" for s
  proof -
    have "odbc_str s ''TestDB'' =
        (''DRIVER={ODBC Driver 18 for SQL Server};'' @ ''SERVER='' @ s @ '';'') @
        ''DATABASE=TestDB;'' @ ''Trusted_Connection=yes;TrustServerCertificate=yes;''"
      by (simp add: odbc_str_def)
    then show ?thesis
      by (simp only: sublist_appendI)
  qed
  have dflt: "connection_string dotenv env =
        ''DRIVER={ODBC Driver 18 for SQL Server};SERVER=localhost'' @ [CHR 0x5C] @
        ''SQL2025;DATABASE=AdventureWorks2025;Trusted_Connection=yes;TrustServerCertificate=yes;''"
    if "env ''SQL_SERVER'' = None" "dotenv ''SQL_SERVER'' = None"
       "env ''SQL_DATABASE'' = None" "dotenv ''SQL_DATABASE'' = None"
    using that
    by (simp add: connection_string_def getenv_load_dotenv_unset odbc_str_def
        default_server_def default_database_def)
  have suf: "suffix ''Trusted_Connection=yes;TrustServerCertificate=yes;''
      (connection_string dotenv env)"
  proof -
    have "odbc_str s d =
        (''DRIVER={ODBC Driver 18 for SQL Server};'' @ ''SERVER='' @ s @ '';'' @
         ''DATABASE='' @ d @ '';'') @ ''Trusted_Connection=yes;TrustServerCertificate=yes;''"
      for s d by (simp add: odbc_str_def)
    then show ?thesis
      unfolding connection_string_def Let_def by (simp only: suffix_def) blast
  qed
  show ?thesis
    using db sub dflt suf by (simp add: make_engine_def)
qed

theorem make_engine_connection_string_witness:
  "connection_string Map.empty [''SQL_DATABASE'' \<mapsto> ''TestDB''] =
     ''DRIVER={ODBC Driver 18 for SQL Server};SERVER=localhost'' @ [CHR 0x5C] @
     ''SQL2025;DATABASE=TestDB;Trusted_Connection=yes;TrustServerCertificate=yes;'' \<and>
   sublist ''DATABASE=TestDB;''
     (connection_string Map.empty [''SQL_DATABASE'' \<mapsto> ''TestDB'']) \<and>
   connection_string [''SQL_DATABASE'' \<mapsto> ''FromDotenv''] Map.empty =
     ''DRIVER={ODBC Driver 18 for SQL Server};SERVER=localhost'' @ [CHR 0x5C] @
     ''SQL2025;DATABASE=FromDotenv;Trusted_Connection=yes;TrustServerCertificate=yes;'' \<and>
   connection_string Map.empty Map.empty =
     ''DRIVER={ODBC Driver 18 for SQL Server};SERVER=localhost'' @ [CHR 0x5C] @
     ''SQL2025;DATABASE=AdventureWorks2025;Trusted_Connection=yes;TrustServerCertificate=yes;''"
proof -
  have h: "[''SQL_DATABASE'' \<mapsto> ''TestDB''] ''SQL_DATABASE'' = Some ''TestDB''"
    by simp
  have g: "getenv (load_dotenv Map.empty [''SQL_DATABASE'' \<mapsto> ''TestDB''])
      ''SQL_SERVER'' default_server = default_server"
    by (simp add: getenv_def load_dotenv_def)
  note inst = make_engine_connection_string
      [of "[''SQL_DATABASE'' \<mapsto> ''TestDB'']" Map.empty, THEN conjunct1, rule_format, OF h]
  have a: "connection_string Map.empty [''SQL_DATABASE'' \<mapsto> ''TestDB''] =
      odbc_str default_server ''TestDB'' \<and>
      sublist ''DATABASE=TestDB;''
        (connection_string Map.empty [''SQL_DATABASE'' \<mapsto> ''TestDB''])"
    using inst unfolding g by blast
  have b: "connection_string Map.empty Map.empty =
     ''DRIVER={ODBC Driver 18 for SQL Server};SERVER=localhost'' @ [CHR 0x5C] @
     ''SQL2025;DATABASE=AdventureWorks2025;Trusted_Connection=yes;TrustServerCertificate=yes;''"
    using make_engine_connection_string [of Map.empty Map.empty] by simp
  have c: "connection_string [''SQL_DATABASE'' \<mapsto> ''FromDotenv''] Map.empty =
     ''DRIVER={ODBC Driver 18 for SQL Server};SERVER=localhost'' @ [CHR 0x5C] @
     ''SQL2025;DATABASE=FromDotenv;Trusted_Connection=yes;TrustServerCertificate=yes;''"
    by (simp add: connection_string_def getenv_def load_dotenv_def odbc_str_def
        default_server_def)
  have a1: "connection_string Map.empty [''SQL_DATABASE'' \<mapsto> ''TestDB''] =
     ''DRIVER={ODBC Driver 18 for SQL Server};SERVER=localhost'' @ [CHR 0x5C] @
     ''SQL2025;DATABASE=TestDB;Trusted_Connection=yes;TrustServerCertificate=yes;''"
    using a by (simp add: odbc_str_def default_server_def)
  show ?thesis
    by (intro conjI) (rule a1 a [THEN conjunct2] b c)+
qed

section \<open>Lemmas about the operations\<close>

lemmas m_defs = bnd_def ret_def lift_def emit_def df_copy_def getitem_def setitem_def df_index_def

lemma map_of_Some_in: "map_of al k = Some v \<Longrightarrow> k \<in> fst ` set al"
  by (force dest: map_of_SomeD)


subsection \<open>The sort\<close>

lemma sorts_set: "sorts argsort ks \<Longrightarrow> set (argsort ks) = {0..<length ks}"
  unfolding sorts_def by (metis set_sort set_upt)

lemma sorts_mset: "sorts argsort ks \<Longrightarrow> mset (argsort ks) = mset [0..<length ks]"
  unfolding sorts_def by (metis mset_sort)

lemma length_non_nans [simp]: "length (non_nans ks asc) = length (non_nan_idx ks asc)"
  by (simp add: non_nans_def)

lemma set_non_nan_idx:
  "set (non_nan_idx ks asc) = {i. i < length ks \<and> ks ! i \<noteq> Null}"
  by (auto simp: non_nan_idx_def Let_def)

lemma mset_non_nan_idx:
  "mset (non_nan_idx ks asc) = mset (filter (\<lambda>i. ks ! i \<noteq> Null) [0..<length ks])"
  by (simp add: non_nan_idx_def Let_def)

lemma mset_indexer:
  assumes "sorts argsort (non_nans ks asc)"
  shows "mset (map ((!) (non_nan_idx ks asc)) (argsort (non_nans ks asc))) =
         mset (non_nan_idx ks asc)"
proof -
  have "mset (map ((!) (non_nan_idx ks asc)) (argsort (non_nans ks asc))) =
        image_mset ((!) (non_nan_idx ks asc)) (mset [0..<length (non_nan_idx ks asc)])"
    using sorts_mset [OF assms] by simp
  also have "\<dots> = mset (map ((!) (non_nan_idx ks asc)) [0..<length (non_nan_idx ks asc)])"
    by simp
  also have "\<dots> = mset (non_nan_idx ks asc)"
    by (simp only: map_nth)
  finally show ?thesis .
qed

lemma mset_nargsort:
  assumes "sorts argsort (non_nans ks asc)"
  shows "mset (nargsort argsort ks asc) = mset [0..<length ks]"
proof -
  have "mset (nargsort argsort ks asc) =
        mset (non_nan_idx ks asc) + mset (nan_idx ks)"
    using mset_indexer [OF assms] by (cases asc) (simp_all add: nargsort_def Let_def)
  also have "\<dots> = mset [0..<length ks]"
    unfolding mset_non_nan_idx nan_idx_def mset_filter
    by (metis (mono_tags, lifting) multiset_partition filter_mset_cong)
  finally show ?thesis .
qed

lemma keys_indexer:
  assumes "sorts argsort (non_nans ks asc)"
  shows "map ((!) ks) (map ((!) (non_nan_idx ks asc)) (argsort (non_nans ks asc))) =
         map ((!) (non_nans ks asc)) (argsort (non_nans ks asc))"
  using sorts_set [OF assms] by (auto simp: non_nans_def)

lemma indexer_non_null:
  assumes "sorts argsort (non_nans ks asc)"
  shows "Null \<notin> set (map ((!) (non_nans ks asc)) (argsort (non_nans ks asc)))"
proof -
  have "\<And>j. j < length (non_nan_idx ks asc) \<Longrightarrow> Null \<noteq> non_nans ks asc ! j"
    using set_non_nan_idx [of ks asc] nth_mem [of _ "non_nan_idx ks asc"]
    by (fastforce simp: non_nans_def)
  then show ?thesis
    using sorts_set [OF assms] by auto
qed

lemma keys_nan_idx: "map ((!) ks) (nan_idx ks) = replicate (length (nan_idx ks)) Null"
  by (simp add: nan_idx_def map_replicate_const [symmetric] cong: map_cong)

lemma ordered_by_append:
  assumes "Null \<notin> set xs" "sorted_wrt (if asc then cell_le else (\<lambda>a b. cell_le b a)) xs"
  shows "ordered_by asc (xs @ replicate m Null)"
proof -
  have "filter (\<lambda>k. k \<noteq> Null) (xs @ replicate m Null) = xs"
    using assms(1) by (auto simp add: filter_id_conv)
  then show ?thesis
    using assms(2) by (simp add: ordered_by_def Let_def)
qed

lemma ordered_nargsort:
  assumes "sorts argsort (non_nans ks asc)"
  shows "ordered_by asc (map ((!) ks) (nargsort argsort ks asc))"
proof -
  let ?s = "map ((!) (non_nans ks asc)) (argsort (non_nans ks asc))"
  have s: "sorted_wrt cell_le ?s"
    using assms by (simp add: sorts_def)
  have nn: "Null \<notin> set ?s"
    by (rule indexer_non_null [OF assms])
  show ?thesis
  proof (cases asc)
    case True
    have "map ((!) ks) (nargsort argsort ks asc) = ?s @ replicate (length (nan_idx ks)) Null"
      using True keys_indexer [OF assms] by (simp add: nargsort_def Let_def keys_nan_idx)
    then show ?thesis
      using ordered_by_append [of ?s asc] s nn True by simp
  next
    case False
    have "map ((!) ks) (nargsort argsort ks asc) = rev ?s @ replicate (length (nan_idx ks)) Null"
      using False keys_indexer [OF assms]
      by (simp add: nargsort_def Let_def keys_nan_idx rev_map [symmetric])
    moreover have "sorted_wrt (\<lambda>a b. cell_le b a) (rev ?s)"
      using s by (simp add: sorted_wrt_rev)
    ultimately show ?thesis
      using ordered_by_append [of "rev ?s" asc] nn False by simp
  qed
qed

lemma non_nan_idx_mono:
  "sorted_wrt (if asc then (<) else (>)) (non_nan_idx ks asc)"
  by (simp add: non_nan_idx_def Let_def sorted_wrt_filter sorted_wrt_rev)

lemma nan_idx_increasing: "sorted_wrt (<) (nan_idx ks)"
  by (simp add: nan_idx_def sorted_wrt_filter)

lemma set_nan_idx: "set (nan_idx ks) = {i. i < length ks \<and> ks ! i = Null}"
  by (auto simp: nan_idx_def)

lemma keeps_ties_nargsort:
  assumes srt: "sorts argsort (non_nans ks asc)"
    and stb: "stable_on argsort (non_nans ks asc)"
  shows "keeps_ties ks (nargsort argsort ks asc)"
proof -
  let ?I = "non_nan_idx ks asc"
  let ?a = "argsort (non_nans ks asc)"
  let ?R = "\<lambda>i j. ks ! i = ks ! j \<longrightarrow> i < j"
  have a_set: "set ?a = {0..<length ?I}"
    using sorts_set [OF srt] by simp
  have inp: "non_nans ks asc ! i = ks ! (?I ! i)" if "i < length ?I" for i
    using that by (simp add: non_nans_def)
  have st: "sorted_wrt (\<lambda>i j. non_nans ks asc ! i = non_nans ks asc ! j \<longrightarrow> i < j) ?a"
    using stb by (simp add: stable_on_def)
  have tail: "sorted_wrt ?R (nan_idx ks)"
    by (rule sorted_wrt_mono_rel [OF _ nan_idx_increasing]) simp
  have cross: "?R x y" if "x \<in> set (map ((!) ?I) ?a)" "y \<in> set (nan_idx ks)" for x y
  proof -
    from that(1) a_set have "x \<in> set ?I" by auto
    then have "ks ! x \<noteq> Null" by (simp add: set_non_nan_idx)
    moreover from that(2) have "ks ! y = Null" by (simp add: set_nan_idx)
    ultimately show ?thesis by simp
  qed
  show ?thesis
  proof (cases asc)
    case True
    have inc: "?I ! i < ?I ! j" if "i < j" "j < length ?I" for i j
      using sorted_wrt_nth_less [OF non_nan_idx_mono [of asc ks] that] True by simp
    have "sorted_wrt (\<lambda>i j. ?R (?I ! i) (?I ! j)) ?a"
      by (rule sorted_wrt_mono_rel [OF _ st]) (use a_set inp inc in auto)
    then have "sorted_wrt ?R (map ((!) ?I) ?a)"
      by (simp add: sorted_wrt_map)
    with tail cross show ?thesis
      using True by (simp add: keeps_ties_def nargsort_def Let_def sorted_wrt_append)
  next
    case False
    have dec: "?I ! j < ?I ! i" if "i < j" "j < length ?I" for i j
      using sorted_wrt_nth_less [OF non_nan_idx_mono [of asc ks] that] False by simp
    have "sorted_wrt (\<lambda>i j. ?R (?I ! j) (?I ! i)) ?a"
      by (rule sorted_wrt_mono_rel [OF _ st]) (use a_set inp dec in auto)
    then have "sorted_wrt ?R (rev (map ((!) ?I) ?a))"
      by (simp add: sorted_wrt_map sorted_wrt_rev)
    with tail cross show ?thesis
      using False by (simp add: keeps_ties_def nargsort_def Let_def sorted_wrt_append)
  qed
qed

subsection \<open>Runs of the sorting charts\<close>

lemma map_of_map_snd:
  "map_of (map (\<lambda>cv. (fst cv, g (snd cv))) al) c = map_option g (map_of al c)"
  by (induction al) auto

lemma map_of_take_rows:
  "map_of (columns (take_rows p f)) c = map_option (\<lambda>v. map ((!) v) p) (map_of (columns f) c)"
  using map_of_map_snd [where g = "\<lambda>v. map ((!) v) p"] by (simp add: take_rows_def)

lemma bar_vertical_run:
  assumes "map_of (columns (frames w ! df)) x = Some xs"
    and "map_of (columns (frames w ! df)) y = Some ys"
    and "map_of (columns (frames w ! df)) s = Some ks"
    and "s \<noteq> []"
    and "comparable (non_nans ks asc)"
  shows "bar_vertical argsort df x y title xl yl (Some s) asc fs rot w =
    (Inr (),
     w\<lparr>frames := frames w @ [frames w ! df, take_rows (nargsort argsort ks asc) (frames w ! df)],
       trace := trace w @
         [Figure fs,
          Bar (astype_str (map ((!) xs) (nargsort argsort ks asc)))
              (map ((!) ys) (nargsort argsort ks asc)),
          SetTitle title, SetXLabel (py_or xl x), SetYLabel (py_or yl y),
          XTicksRotation rot, TightLayout, Show]\<rparr>)"
  using assms
  by (simp add: bar_vertical_def sort_values_def m_defs Let_def nth_append map_of_take_rows)

lemma bar_horizontal_run:
  assumes "map_of (columns (frames w ! df)) x = Some xs"
    and "map_of (columns (frames w ! df)) y = Some ys"
    and "comparable (non_nans xs (\<not> desc))"
  shows "bar_horizontal argsort df x y title xl yl desc fs w =
    (Inr (),
     w\<lparr>frames := frames w @
         [frames w ! df, take_rows (nargsort argsort xs (\<not> desc)) (frames w ! df)],
       trace := trace w @
         [Figure fs,
          Barh (astype_str (map ((!) ys) (nargsort argsort xs (\<not> desc))))
               (map ((!) xs) (nargsort argsort xs (\<not> desc))),
          InvertYAxis,
          SetTitle title, SetXLabel (py_or xl x), SetYLabel (py_or yl y),
          TightLayout, Show]\<rparr>)"
  using assms
  by (simp add: bar_horizontal_def sort_values_def m_defs Let_def nth_append map_of_take_rows)

lemma to_datetime_cell_kind:
  "to_datetime_cell conv c = Inr v \<Longrightarrow> is_date v \<or> v = Null"
  by (auto simp: to_datetime_cell_def is_date_def split: cell.splits sum.splits)

lemma to_datetime_kinds:
  "to_datetime conv cs = Inr vs \<Longrightarrow>
     length vs = length cs \<and> (\<forall>v \<in> set vs. is_date v \<or> v = Null)"
proof (induction cs arbitrary: vs)
  case Nil
  then show ?case by simp
next
  case (Cons c cs)
  then show ?case
    by (auto split: sum.splits dest: to_datetime_cell_kind)
qed

lemma comparable_dates:
  assumes "\<forall>c \<in> set l. is_date c"
  shows "comparable l"
proof (cases l)
  case Nil
  then show ?thesis by (simp add: comparable_def)
next
  case (Cons k rest)
  have "kind c = 2" if "is_date c" for c
    using that by (cases c) (simp_all add: is_date_def)
  with assms Cons show ?thesis
    by (simp add: comparable_def list_all_iff)
qed

lemma set_non_nans: "set (non_nans ks asc) = {c \<in> set ks. c \<noteq> Null}"
  by (auto simp: non_nans_def set_non_nan_idx in_set_conv_nth)

lemma comparable_to_datetime:
  assumes "to_datetime conv cs = Inr vs"
  shows "comparable (non_nans vs asc)"
  using to_datetime_kinds [OF assms]
  by (intro comparable_dates) (auto simp: set_non_nans)

lemma line_plot_monthly_run:
  assumes "map_of (columns (frames w ! df)) date_col = Some ds"
    and "to_datetime conv ds = Inr ds'"
    and "((map_of (columns (frames w ! df)))(date_col \<mapsto> ds')) value_col = Some vs"
  shows "line_plot_monthly conv argsort df date_col value_col title xl yl mi fs marker w =
    (Inr (),
     w\<lparr>frames := frames w @
         [(frames w ! df)\<lparr>columns := AList.update date_col ds' (columns (frames w ! df))\<rparr>,
          take_rows (nargsort argsort ds' True)
            ((frames w ! df)\<lparr>columns := AList.update date_col ds' (columns (frames w ! df))\<rparr>)],
       trace := trace w @
         [Figure fs,
          Plot (map ((!) ds') (nargsort argsort ds' True))
               (map ((!) vs) (nargsort argsort ds' True)) marker,
          SetTitle title, SetXLabel xl, SetYLabel yl,
          MonthLocator mi, DateFormatter ''%Y-%m'', XTicksRotation 45,
          TightLayout, Show]\<rparr>)"
  using assms comparable_to_datetime [OF assms(2), of True]
  by (simp add: line_plot_monthly_def sort_values_def m_defs Let_def nth_append
      map_of_take_rows update_conv')

section \<open>Properties of the chart library\<close>

text \<open>
  C1 (as amended). When \<open>y_col_labels\<close> is given and its length differs from that of
  \<open>y_cols\<close>, \<open>grouped_bar_wide\<close> raises before any figure is created or any bar is
  drawn (no call is recorded): the value error with the message
  \<open>y_col_labels must have the same length as y_cols\<close> when the dataframe has the
  column \<open>x\<close>, and a key error for \<open>x\<close> otherwise, because \<open>d[x]\<close> is read before the
  lengths are compared.
\<close>

theorem grouped_bar_wide_label_mismatch:
  assumes "length labs \<noteq> length y_cols"
  shows "fst (grouped_bar_wide df x y_cols title xlabel ylabel legend_title figsize rotate_x
                (Some labs) w) =
           (if x \<in> fst ` set (columns (frames w ! df))
            then Inl (ValueError ''y_col_labels must have the same length as y_cols'')
            else Inl (KeyError x)) \<and>
         trace (snd (grouped_bar_wide df x y_cols title xlabel ylabel legend_title figsize rotate_x
                (Some labs) w)) = trace w"
  using assms
  by (auto simp add: grouped_bar_wide_def m_defs Let_def map_of_eq_None_iff
      split: option.splits dest: map_of_Some_in)

theorem grouped_bar_wide_label_mismatch_witness:
  "fst (grouped_bar_wide 0 ''Region'' [''Q1'', ''Q2''] ''Sales'' None '''' '''' (11, 5) 0
         (Some [''first'']) \<lparr>frames = [sales_wide], trace = []\<rparr>) =
     Inl (ValueError ''y_col_labels must have the same length as y_cols'') \<and>
   trace (snd (grouped_bar_wide 0 ''Region'' [''Q1'', ''Q2''] ''Sales'' None '''' '''' (11, 5) 0
         (Some [''first'']) \<lparr>frames = [sales_wide], trace = []\<rparr>)) = []"
  using grouped_bar_wide_label_mismatch [of "[''first'']" "[''Q1'', ''Q2'']" 0 "''Region''"
      "''Sales''" None "''''" "''''" "(11, 5)" 0 "\<lparr>frames = [sales_wide], trace = []\<rparr>"]
  by (simp add: sales_wide_def)

text \<open>
  The claim as stated (a value error for every dataframe) fails on a dataframe without
  the column \<open>x\<close>: the labels mismatch, and the exception is the key error.
\<close>

theorem grouped_bar_wide_key_error_first:
  "length [''first''] \<noteq> length [''Q1'', ''Q2''] \<and>
   fst (grouped_bar_wide 0 ''Area'' [''Q1'', ''Q2''] ''Sales'' None '''' '''' (11, 5) 0
         (Some [''first'']) \<lparr>frames = [sales_wide], trace = []\<rparr>) = Inl (KeyError ''Area'') \<and>
   fst (grouped_bar_wide 0 ''Area'' [''Q1'', ''Q2''] ''Sales'' None '''' '''' (11, 5) 0
         (Some [''first'']) \<lparr>frames = [sales_wide], trace = []\<rparr>) \<noteq>
     Inl (ValueError ''y_col_labels must have the same length as y_cols'')"
  by (simp add: grouped_bar_wide_def m_defs sales_wide_def)

subsection \<open>Sorted bar charts\<close>

lemma region_sales_cols:
  "map_of (columns (frames \<lparr>frames = [region_sales], trace = []\<rparr> ! 0)) ''Region'' =
     Some [Str ''East'', Str ''West'', Str ''North'', Str ''South'']"
  "map_of (columns (frames \<lparr>frames = [region_sales], trace = []\<rparr> ! 0)) ''Sales'' =
     Some [Num 20, Num 50, Num 20, Num 30]"
  by (simp_all add: region_sales_def)

lemma region_sales_comparable:
  "comparable (non_nans [Num 20, Num 50, Num 20, Num 30] False)"
  "comparable (non_nans [Num 20, Num 50, Num 20, Num 30] True)"
  by code_simp+

lemma region_sales_sorts:
  "sorts argsort_stable (non_nans [Num 20, Num 50, Num 20, Num 30] False)"
  "sorts argsort_stable (non_nans [Num 20, Num 50, Num 20, Num 30] True)"
  by code_simp+

lemma region_sales_stable:
  "stable_on argsort_stable (non_nans [Num 20, Num 50, Num 20, Num 30] False)"
  "stable_on argsort_stable (non_nans [Num 20, Num 50, Num 20, Num 30] True)"
  by code_simp+

lemma region_sales_nargsort:
  "nargsort argsort_stable [Num 20, Num 50, Num 20, Num 30] False = [1, 3, 0, 2]"
  "nargsort argsort_stable [Num 20, Num 50, Num 20, Num 30] True = [0, 2, 3, 1]"
  by code_simp+

text \<open>
  C3. On a table that has the columns \<open>x\<close> and \<open>y\<close>: \<open>bar_vertical\<close> with \<open>sort_by\<close> set
  to a column \<open>s\<close> of comparable keys draws the rows in the order \<open>p\<close> of the table
  sorted by \<open>s\<close> in the direction of \<open>ascending\<close>: \<open>p\<close> is a permutation of the row
  positions, the keys along \<open>p\<close> are ordered in that direction (missing keys last), and
  the categories and heights handed to \<open>ax.bar\<close> are the columns \<open>x\<close> and \<open>y\<close> along
  \<open>p\<close>. \<open>bar_horizontal\<close> with \<open>sort_desc=True\<close> hands to \<open>ax.barh\<close> the rows in
  descending order of the value column \<open>x\<close>, and inverts the axis so that the first is
  on top. The library's sort of the non-missing keys is only assumed to sort.
\<close>

theorem bar_charts_render_sorted:
  assumes "map_of (columns (frames w ! df)) x = Some xs"
    and "map_of (columns (frames w ! df)) y = Some ys"
  shows
    "(s \<noteq> [] \<and> map_of (columns (frames w ! df)) s = Some ks \<and>
      comparable (non_nans ks asc) \<and> sorts argsort (non_nans ks asc) \<longrightarrow>
        mset (nargsort argsort ks asc) = mset [0..<length ks] \<and>
        ordered_by asc (map ((!) ks) (nargsort argsort ks asc)) \<and>
        fst (bar_vertical argsort df x y title xl yl (Some s) asc fs rot w) = Inr () \<and>
        trace (snd (bar_vertical argsort df x y title xl yl (Some s) asc fs rot w)) =
          trace w @
          [Figure fs,
           Bar (astype_str (map ((!) xs) (nargsort argsort ks asc)))
               (map ((!) ys) (nargsort argsort ks asc)),
           SetTitle title, SetXLabel (py_or xl x), SetYLabel (py_or yl y),
           XTicksRotation rot, TightLayout, Show]) \<and>
     (comparable (non_nans xs False) \<and> sorts argsort (non_nans xs False) \<longrightarrow>
        mset (nargsort argsort xs False) = mset [0..<length xs] \<and>
        ordered_by False (map ((!) xs) (nargsort argsort xs False)) \<and>
        fst (bar_horizontal argsort df x y title xl yl True fs w) = Inr () \<and>
        trace (snd (bar_horizontal argsort df x y title xl yl True fs w)) =
          trace w @
          [Figure fs,
           Barh (astype_str (map ((!) ys) (nargsort argsort xs False)))
                (map ((!) xs) (nargsort argsort xs False)),
           InvertYAxis,
           SetTitle title, SetXLabel (py_or xl x), SetYLabel (py_or yl y),
           TightLayout, Show])"
proof (intro conjI impI)
  assume h: "s \<noteq> [] \<and> map_of (columns (frames w ! df)) s = Some ks \<and>
      comparable (non_nans ks asc) \<and> sorts argsort (non_nans ks asc)"
  then show "mset (nargsort argsort ks asc) = mset [0..<length ks]"
    by (simp add: mset_nargsort)
  from h show "ordered_by asc (map ((!) ks) (nargsort argsort ks asc))"
    by (simp add: ordered_nargsort)
  note run = bar_vertical_run [OF assms, of s ks asc argsort title xl yl fs rot]
  from h run show "fst (bar_vertical argsort df x y title xl yl (Some s) asc fs rot w) = Inr ()"
    by simp
  from h run show "trace (snd (bar_vertical argsort df x y title xl yl (Some s) asc fs rot w)) =
          trace w @
          [Figure fs,
           Bar (astype_str (map ((!) xs) (nargsort argsort ks asc)))
               (map ((!) ys) (nargsort argsort ks asc)),
           SetTitle title, SetXLabel (py_or xl x), SetYLabel (py_or yl y),
           XTicksRotation rot, TightLayout, Show]"
    by simp
next
  assume h: "comparable (non_nans xs False) \<and> sorts argsort (non_nans xs False)"
  then show "mset (nargsort argsort xs False) = mset [0..<length xs]"
    by (simp add: mset_nargsort)
  from h show "ordered_by False (map ((!) xs) (nargsort argsort xs False))"
    by (simp add: ordered_nargsort)
  note run = bar_horizontal_run [OF assms, of True argsort title xl yl fs]
  from h run show "fst (bar_horizontal argsort df x y title xl yl True fs w) = Inr ()"
    by simp
  from h run show "trace (snd (bar_horizontal argsort df x y title xl yl True fs w)) =
          trace w @
          [Figure fs,
           Barh (astype_str (map ((!) ys) (nargsort argsort xs False)))
                (map ((!) xs) (nargsort argsort xs False)),
           InvertYAxis,
           SetTitle title, SetXLabel (py_or xl x), SetYLabel (py_or yl y),
           TightLayout, Show]"
    by simp
qed

theorem bar_charts_render_sorted_witness:
  "trace (snd (bar_vertical argsort_stable 0 ''Region'' ''Sales'' ''Sales by region'' None None
       (Some ''Sales'') False (10, 5) 0 \<lparr>frames = [region_sales], trace = []\<rparr>)) =
     [Figure (10, 5),
      Bar [''West'', ''South'', ''East'', ''North''] [Num 50, Num 30, Num 20, Num 20],
      SetTitle ''Sales by region'', SetXLabel ''Region'', SetYLabel ''Sales'',
      XTicksRotation 0, TightLayout, Show] \<and>
   ordered_by False [Num 50, Num 30, Num 20, Num 20] \<and>
   trace (snd (bar_horizontal argsort_stable 0 ''Sales'' ''Region'' ''Sales by region'' None None
       True (10, 6) \<lparr>frames = [region_sales], trace = []\<rparr>)) =
     [Figure (10, 6),
      Barh [''West'', ''South'', ''East'', ''North''] [Num 50, Num 30, Num 20, Num 20],
      InvertYAxis,
      SetTitle ''Sales by region'', SetXLabel ''Sales'', SetYLabel ''Region'',
      TightLayout, Show]"
proof -
  have hv: "''Sales'' \<noteq> [] \<and>
      map_of (columns (frames \<lparr>frames = [region_sales], trace = []\<rparr> ! 0)) ''Sales'' =
        Some [Num 20, Num 50, Num 20, Num 30] \<and>
      comparable (non_nans [Num 20, Num 50, Num 20, Num 30] False) \<and>
      sorts argsort_stable (non_nans [Num 20, Num 50, Num 20, Num 30] False)"
    using region_sales_cols(2) region_sales_comparable(1) region_sales_sorts(1) by simp
  have hh: "comparable (non_nans [Num 20, Num 50, Num 20, Num 30] False) \<and>
      sorts argsort_stable (non_nans [Num 20, Num 50, Num 20, Num 30] False)"
    using region_sales_comparable(1) region_sales_sorts(1) by (rule conjI)
  note v = bar_charts_render_sorted [OF region_sales_cols(1) region_sales_cols(2),
      of "''Sales''" "[Num 20, Num 50, Num 20, Num 30]" False argsort_stable
         "''Sales by region''" None None "(10, 5)" 0, THEN conjunct1, rule_format, OF hv]
  note h = bar_charts_render_sorted [OF region_sales_cols(2) region_sales_cols(1),
      of "''Sales''" "[Num 20, Num 50, Num 20, Num 30]" False argsort_stable
         "''Sales by region''" None None "(10, 6)" 0, THEN conjunct2, rule_format, OF hh]
  have a: "trace (snd (bar_vertical argsort_stable 0 ''Region'' ''Sales'' ''Sales by region''
       None None (Some ''Sales'') False (10, 5) 0 \<lparr>frames = [region_sales], trace = []\<rparr>)) =
     [Figure (10, 5),
      Bar [''West'', ''South'', ''East'', ''North''] [Num 50, Num 30, Num 20, Num 20],
      SetTitle ''Sales by region'', SetXLabel ''Region'', SetYLabel ''Sales'',
      XTicksRotation 0, TightLayout, Show]"
    using v [THEN conjunct2, THEN conjunct2, THEN conjunct2]
    unfolding region_sales_nargsort by (simp add: astype_str_def py_or_def)
  have o: "ordered_by False [Num 50, Num 30, Num 20, Num 20]"
    using v [THEN conjunct2, THEN conjunct1]
    unfolding region_sales_nargsort by simp
  have b: "trace (snd (bar_horizontal argsort_stable 0 ''Sales'' ''Region'' ''Sales by region''
       None None True (10, 6) \<lparr>frames = [region_sales], trace = []\<rparr>)) =
     [Figure (10, 6),
      Barh [''West'', ''South'', ''East'', ''North''] [Num 50, Num 30, Num 20, Num 20],
      InvertYAxis,
      SetTitle ''Sales by region'', SetXLabel ''Sales'', SetYLabel ''Region'',
      TightLayout, Show]"
    using h [THEN conjunct2, THEN conjunct2, THEN conjunct2]
    unfolding region_sales_nargsort by (simp add: astype_str_def py_or_def)
  from a o b show ?thesis by (intro conjI)
qed

subsection \<open>The monthly line\<close>

lemma monthly_shuffled_cols:
  "map_of (columns (frames \<lparr>frames = [monthly_shuffled], trace = []\<rparr> ! 0)) ''MonthStart'' =
     Some [Date (2024, 3, 1), Date (2024, 1, 1), Date (2024, 4, 1), Str ''2024-02-01'']"
  "((map_of (columns (frames \<lparr>frames = [monthly_shuffled], trace = []\<rparr> ! 0)))
      (''MonthStart'' \<mapsto> [Date (2024, 3, 1), Date (2024, 1, 1), Date (2024, 4, 1),
                              Date (2024, 2, 1)])) ''TotalSales'' =
     Some [Num 90, Num 100, Num 200, Num 150]"
  by (simp_all add: monthly_shuffled_def)

lemma monthly_shuffled_dates:
  "to_datetime conv_sample
     [Date (2024, 3, 1), Date (2024, 1, 1), Date (2024, 4, 1), Str ''2024-02-01''] =
   Inr [Date (2024, 3, 1), Date (2024, 1, 1), Date (2024, 4, 1), Date (2024, 2, 1)]"
  by (simp add: to_datetime_cell_def conv_sample_def)

lemma monthly_shuffled_sorts:
  "sorts argsort_stable
     (non_nans [Date (2024, 3, 1), Date (2024, 1, 1), Date (2024, 4, 1), Date (2024, 2, 1)] True)"
  by code_simp

lemma monthly_shuffled_nargsort:
  "nargsort argsort_stable
     [Date (2024, 3, 1), Date (2024, 1, 1), Date (2024, 4, 1), Date (2024, 2, 1)] True =
   [1, 3, 0, 2]"
  by code_simp

text \<open>
  C4. Whatever the order of the input rows, when the date column exists and converts
  and the value column exists, \<open>line_plot_monthly\<close> hands to \<open>plt.plot\<close> the rows in
  non-decreasing order of the converted dates (rows without a date last): the points
  are the rows of the converted table along a permutation \<open>p\<close> of the row positions,
  and the dates along \<open>p\<close> are ordered ascending.
\<close>

theorem line_plot_monthly_dates_sorted:
  assumes "map_of (columns (frames w ! df)) date_col = Some ds"
    and "to_datetime conv ds = Inr ds'"
    and "((map_of (columns (frames w ! df)))(date_col \<mapsto> ds')) value_col = Some vs"
    and "sorts argsort (non_nans ds' True)"
  shows "mset (nargsort argsort ds' True) = mset [0..<length ds] \<and>
         ordered_by True (map ((!) ds') (nargsort argsort ds' True)) \<and>
         fst (line_plot_monthly conv argsort df date_col value_col title xl yl mi fs marker w) =
           Inr () \<and>
         trace (snd (line_plot_monthly conv argsort df date_col value_col title xl yl mi fs
                       marker w)) =
           trace w @
           [Figure fs,
            Plot (map ((!) ds') (nargsort argsort ds' True))
                 (map ((!) vs) (nargsort argsort ds' True)) marker,
            SetTitle title, SetXLabel xl, SetYLabel yl,
            MonthLocator mi, DateFormatter ''%Y-%m'', XTicksRotation 45,
            TightLayout, Show]"
proof -
  have len: "length ds' = length ds"
    using to_datetime_kinds [OF assms(2)] by simp
  note run = line_plot_monthly_run [OF assms(1) assms(2) assms(3),
      of argsort title xl yl mi fs marker]
  show ?thesis
    using mset_nargsort [OF assms(4)] ordered_nargsort [OF assms(4)] len run by simp
qed

theorem line_plot_monthly_dates_sorted_witness:
  "ordered_by True [Date (2024, 1, 1), Date (2024, 2, 1), Date (2024, 3, 1), Date (2024, 4, 1)] \<and>
   trace (snd (line_plot_monthly conv_sample argsort_stable 0 ''MonthStart'' ''TotalSales''
       ''Monthly sales'' ''Month'' ''Value'' 3 (11, 5) ''o''
       \<lparr>frames = [monthly_shuffled], trace = []\<rparr>)) =
     [Figure (11, 5),
      Plot [Date (2024, 1, 1), Date (2024, 2, 1), Date (2024, 3, 1), Date (2024, 4, 1)]
           [Num 100, Num 150, Num 90, Num 200] ''o'',
      SetTitle ''Monthly sales'', SetXLabel ''Month'', SetYLabel ''Value'',
      MonthLocator 3, DateFormatter ''%Y-%m'', XTicksRotation 45,
      TightLayout, Show]"
proof -
  note t = line_plot_monthly_dates_sorted
      [where argsort = argsort_stable and title = "''Monthly sales''" and xl = "''Month''"
         and yl = "''Value''" and mi = 3 and fs = "(11, 5)" and marker = "''o''",
       OF monthly_shuffled_cols(1) monthly_shuffled_dates monthly_shuffled_cols(2)
         monthly_shuffled_sorts]
  have a: "ordered_by True
      [Date (2024, 1, 1), Date (2024, 2, 1), Date (2024, 3, 1), Date (2024, 4, 1)]"
    using t [THEN conjunct2, THEN conjunct1] unfolding monthly_shuffled_nargsort by simp
  have b: "trace (snd (line_plot_monthly conv_sample argsort_stable 0 ''MonthStart''
       ''TotalSales'' ''Monthly sales'' ''Month'' ''Value'' 3 (11, 5) ''o''
       \<lparr>frames = [monthly_shuffled], trace = []\<rparr>)) =
     [Figure (11, 5),
      Plot [Date (2024, 1, 1), Date (2024, 2, 1), Date (2024, 3, 1), Date (2024, 4, 1)]
           [Num 100, Num 150, Num 90, Num 200] ''o'',
      SetTitle ''Monthly sales'', SetXLabel ''Month'', SetYLabel ''Value'',
      MonthLocator 3, DateFormatter ''%Y-%m'', XTicksRotation 45,
      TightLayout, Show]"
    using t [THEN conjunct2, THEN conjunct2, THEN conjunct2]
    unfolding monthly_shuffled_nargsort by simp
  from a b show ?thesis by (rule conjI)
qed

subsection \<open>The caller's dataframe is not changed\<close>

lemma keeps_bnd:
  assumes "keeps_frames n c"
    and "\<And>x w. n \<le> length (frames w) \<Longrightarrow> fst (c w) = Inr x \<Longrightarrow> keeps_frames n (f x)"
  shows "keeps_frames n (bnd c f)"
  unfolding keeps_frames_def
proof (intro allI impI)
  fix w :: world
  assume n: "n \<le> length (frames w)"
  obtain r w' where cw: "c w = (r, w')" by (cases "c w")
  from assms(1) n cw have w': "n \<le> length (frames w')" "take n (frames w') = take n (frames w)"
    by (auto simp: keeps_frames_def)
  show "n \<le> length (frames (snd (bnd c f w))) \<and>
        take n (frames (snd (bnd c f w))) = take n (frames w)"
  proof (cases r)
    case (Inl e)
    with cw w' show ?thesis by (simp add: bnd_def)
  next
    case (Inr x)
    with assms(2) [OF n, of x] cw have "keeps_frames n (f x)" by simp
    with w' have "n \<le> length (frames (snd (f x w'))) \<and>
        take n (frames (snd (f x w'))) = take n (frames w)"
      by (simp add: keeps_frames_def)
    with cw Inr show ?thesis by (simp add: bnd_def)
  qed
qed

lemma keeps_ret: "keeps_frames n (ret x)"
  by (simp add: keeps_frames_def ret_def)

lemma keeps_lift: "keeps_frames n (lift r)"
  by (simp add: keeps_frames_def lift_def)

lemma keeps_emit: "keeps_frames n (emit e)"
  by (simp add: keeps_frames_def emit_def)

lemma keeps_emits: "keeps_frames n (emits es)"
  by (induction es) (auto intro: keeps_bnd keeps_ret keeps_emit)

lemma keeps_getitem: "keeps_frames n (getitem a c)"
  by (simp add: keeps_frames_def getitem_def split: option.splits)

lemma keeps_df_index: "keeps_frames n (df_index a)"
  by (simp add: keeps_frames_def df_index_def)

lemma keeps_iloc: "keeps_frames n (iloc a i)"
  by (simp add: keeps_frames_def iloc_def Let_def)

lemma keeps_loc: "keeps_frames n (loc a l)"
  by (simp add: keeps_frames_def loc_def Let_def split: list.splits)

lemma keeps_df_copy: "keeps_frames n (df_copy a)"
  by (simp add: keeps_frames_def df_copy_def)

lemma keeps_sort_values: "keeps_frames n (sort_values argsort a c asc)"
  by (simp add: keeps_frames_def sort_values_def Let_def split: option.splits)

lemma keeps_setitem: "n \<le> a \<Longrightarrow> keeps_frames n (setitem a c v)"
  by (simp add: keeps_frames_def setitem_def)

lemma df_copy_fresh: "fst (df_copy a w) = Inr d \<Longrightarrow> n \<le> length (frames w) \<Longrightarrow> n \<le> d"
  by (auto simp: df_copy_def)

lemma keeps_bars_loop: "keeps_frames n (bars_loop d m k i cls)"
  by (induction cls arbitrary: i) (auto intro!: keeps_bnd keeps_ret keeps_emit keeps_getitem)

lemmas keeps_intros =
  keeps_bnd keeps_ret keeps_lift keeps_emit keeps_emits keeps_getitem keeps_df_index
  keeps_iloc keeps_loc keeps_df_copy keeps_sort_values keeps_bars_loop

lemma keeps_bar_vertical:
  "keeps_frames n (bar_vertical argsort df x y title xl yl sort_by asc fs rot)"
  unfolding bar_vertical_def
  by (intro keeps_intros) (auto split: option.splits intro: keeps_intros)

lemma keeps_bar_horizontal:
  "keeps_frames n (bar_horizontal argsort df x y title xl yl desc fs)"
  unfolding bar_horizontal_def by (intro keeps_intros)

lemma keeps_line_plot_monthly:
  "keeps_frames n (line_plot_monthly conv argsort df date_col value_col title xl yl mi fs marker)"
  unfolding line_plot_monthly_def
  by (intro keeps_intros keeps_setitem) (erule df_copy_fresh)

lemma keeps_grouped_bar_wide:
  "keeps_frames n (grouped_bar_wide df x y_cols title xl yl lt fs rot labs)"
  unfolding grouped_bar_wide_def Let_def
  by (intro keeps_intros) (auto intro!: keeps_intros)

lemma keeps_scatter_plot:
  "keeps_frames n (scatter_plot df x y title xl yl fs alpha)"
  unfolding scatter_plot_def by (intro keeps_intros)

lemma keeps_insight_monthly_trend:
  "keeps_frames n (insight_monthly_trend conv df date_col value_col)"
  unfolding insight_monthly_trend_def
  by (intro keeps_intros keeps_setitem) (erule df_copy_fresh)

lemma keeps_framesD:
  "keeps_frames (length (frames w)) c \<Longrightarrow>
     take (length (frames w)) (frames (snd (c w))) = frames w \<and>
     (\<forall>a < length (frames w). frames (snd (c w)) ! a = frames w ! a)"
proof -
  assume k: "keeps_frames (length (frames w)) c"
  then have t: "take (length (frames w)) (frames (snd (c w))) = frames w"
    by (simp add: keeps_frames_def)
  have "frames (snd (c w)) ! a = frames w ! a" if "a < length (frames w)" for a
    using that nth_take [of a "length (frames w)" "frames (snd (c w))"] t by simp
  with t show ?thesis by simp
qed

text \<open>
  C8. Each of the six functions leaves the dataframe object it is given as it was, on
  every path, normal or exceptional: they work on a copy (\<open>df.copy()\<close>), the only
  assignment \<open>d[date_col] = ...\<close> goes to that copy, \<open>sort_values\<close> builds a new object,
  and \<open>scatter_plot\<close> only reads. The calls into the display are taken not to change the
  columns they receive.
\<close>

theorem rendering_leaves_dataframe_unchanged:
  assumes "df < length (frames w)"
  shows
    "frames (snd (bar_vertical argsort df x y title xl yl sort_by asc fs rot w)) ! df =
       frames w ! df \<and>
     frames (snd (bar_horizontal argsort df x y title xl yl desc fs w)) ! df = frames w ! df \<and>
     frames (snd (line_plot_monthly conv argsort df date_col value_col title xlabel ylabel mi fs
                    marker w)) ! df = frames w ! df \<and>
     frames (snd (grouped_bar_wide df x y_cols title xl ylabel lt fs rot labs w)) ! df =
       frames w ! df \<and>
     frames (snd (scatter_plot df x y title xl yl fs alpha w)) ! df = frames w ! df \<and>
     frames (snd (insight_monthly_trend conv df date_col value_col w)) ! df = frames w ! df"
  using assms
    keeps_framesD [OF keeps_bar_vertical, of w argsort df x y title xl yl sort_by asc fs rot]
    keeps_framesD [OF keeps_bar_horizontal, of w argsort df x y title xl yl desc fs]
    keeps_framesD [OF keeps_line_plot_monthly, of w conv argsort df date_col value_col title
      xlabel ylabel mi fs marker]
    keeps_framesD [OF keeps_grouped_bar_wide, of w df x y_cols title xl ylabel lt fs rot labs]
    keeps_framesD [OF keeps_scatter_plot, of w df x y title xl yl fs alpha]
    keeps_framesD [OF keeps_insight_monthly_trend, of w conv df date_col value_col]
  by blast

theorem rendering_leaves_dataframe_unchanged_witness:
  "frames (snd (bar_vertical argsort_stable 0 ''MonthStart'' ''TotalSales'' ''Sales'' None None
       (Some ''TotalSales'') False (10, 5) 0 \<lparr>frames = [monthly_shuffled], trace = []\<rparr>)) ! 0 =
     monthly_shuffled \<and>
   frames (snd (bar_horizontal argsort_stable 0 ''MonthStart'' ''TotalSales'' ''Sales'' None None
       True (10, 5) \<lparr>frames = [monthly_shuffled], trace = []\<rparr>)) ! 0 = monthly_shuffled \<and>
   frames (snd (line_plot_monthly conv_sample argsort_stable 0 ''MonthStart'' ''TotalSales''
       ''Sales'' ''Month'' ''Value'' 3 (10, 5) ''o''
       \<lparr>frames = [monthly_shuffled], trace = []\<rparr>)) ! 0 = monthly_shuffled \<and>
   frames (snd (grouped_bar_wide 0 ''MonthStart'' [''TotalSales''] ''Sales'' None ''Value'' ''''
       (10, 5) 0 None \<lparr>frames = [monthly_shuffled], trace = []\<rparr>)) ! 0 = monthly_shuffled \<and>
   frames (snd (scatter_plot 0 ''MonthStart'' ''TotalSales'' ''Sales'' None None (10, 5) (7 / 10)
       \<lparr>frames = [monthly_shuffled], trace = []\<rparr>)) ! 0 = monthly_shuffled \<and>
   frames (snd (insight_monthly_trend conv_sample 0 ''MonthStart'' ''TotalSales''
       \<lparr>frames = [monthly_shuffled], trace = []\<rparr>)) ! 0 = monthly_shuffled"
proof -
  have h: "0 < length (frames \<lparr>frames = [monthly_shuffled], trace = []\<rparr>)"
    by simp
  show ?thesis
    using rendering_leaves_dataframe_unchanged
      [where df = 0 and w = "\<lparr>frames = [monthly_shuffled], trace = []\<rparr>"
         and argsort = argsort_stable and conv = conv_sample
         and x = "''MonthStart''" and y = "''TotalSales''" and title = "''Sales''"
         and xl = None and yl = None and sort_by = "Some ''TotalSales''" and asc = False
         and fs = "(10, 5)" and rot = 0 and desc = True
         and date_col = "''MonthStart''" and value_col = "''TotalSales''"
         and xlabel = "''Month''" and ylabel = "''Value''" and mi = 3 and marker = "''o''"
         and y_cols = "[''TotalSales'']" and lt = "''''" and labs = None and alpha = "7 / 10",
       OF h]
    by simp
qed

subsection \<open>The insight paragraph\<close>

lemma argbest_first_best:
  assumes "\<And>i j. i < n \<Longrightarrow> j < n \<Longrightarrow> better (v ! i) (v ! j) = (key j < (key i :: int))"
    and "b < k" and "k \<le> n"
    and "\<forall>j<k. (j < b \<longrightarrow> key j < key b) \<and> (b < j \<longrightarrow> key j \<le> key b)"
  shows "argbest better v b [k..<n] < n \<and>
         (\<forall>j<n. (j < argbest better v b [k..<n] \<longrightarrow> key j < key (argbest better v b [k..<n])) \<and>
                 (argbest better v b [k..<n] < j \<longrightarrow> key j \<le> key (argbest better v b [k..<n])))"
  using assms(2-)
proof (induction "n - k" arbitrary: k b)
  case 0
  then show ?case by simp
next
  case (Suc m)
  then have kn: "k < n" by simp
  let ?b = "if better (v ! k) (v ! b) then k else b"
  have step: "argbest better v b [k..<n] = argbest better v ?b [Suc k..<n]"
    using kn by (simp add: upt_conv_Cons)
  have bk: "better (v ! k) (v ! b) = (key b < key k)"
    using assms(1) [of k b] kn Suc.prems by simp
  have inv: "\<forall>j<Suc k. (j < ?b \<longrightarrow> key j < key ?b) \<and> (?b < j \<longrightarrow> key j \<le> key ?b)"
  proof (intro allI impI)
    fix j assume j: "j < Suc k"
    show "(j < ?b \<longrightarrow> key j < key ?b) \<and> (?b < j \<longrightarrow> key j \<le> key ?b)"
    proof (cases "key b < key k")
      case True
      then have b': "?b = k" using bk by simp
      have "key j < key k" if "j < k" for j
      proof -
        consider "j < b" | "j = b" | "b < j" by linarith
        then show ?thesis
        proof cases
          case 1
          with Suc.prems(3) that have "key j < key b" by simp
          with True show ?thesis by simp
        next
          case 2
          with True show ?thesis by simp
        next
          case 3
          with Suc.prems(3) that have "key j \<le> key b" by simp
          with True show ?thesis by simp
        qed
      qed
      with b' j show ?thesis by auto
    next
      case False
      then have b': "?b = b" using bk by simp
      with Suc.prems(3) j False Suc.prems(1) show ?thesis
        by (cases "j = k") auto
    qed
  qed
  have "?b < Suc k" using Suc.prems by simp
  moreover have "Suc k \<le> n" using kn by simp
  moreover have "m = n - Suc k" using Suc.hyps(2) by simp
  ultimately show ?case
    unfolding step using Suc.hyps(1) [of "Suc k" ?b] inv by blast
qed

lemma argbest_from_zero:
  assumes "\<And>i j. i < n \<Longrightarrow> j < n \<Longrightarrow> better (v ! i) (v ! j) = (key j < (key i :: int))"
    and "0 < n"
  shows "argbest better v 0 [1..<n] < n \<and>
         (\<forall>j<n. (j < argbest better v 0 [1..<n] \<longrightarrow> key j < key (argbest better v 0 [1..<n])) \<and>
                 key j \<le> key (argbest better v 0 [1..<n]))"
proof -
  let ?r = "argbest better v 0 [1..<n]"
  have "\<forall>j<1. (j < 0 \<longrightarrow> key j < key 0) \<and> (0 < j \<longrightarrow> key j \<le> key 0)"
    by simp
  from argbest_first_best [of n better v key 0 1, OF assms(1) _ _ this] assms(2)
  have r: "?r < n \<and> (\<forall>j<n. (j < ?r \<longrightarrow> key j < key ?r) \<and> (?r < j \<longrightarrow> key j \<le> key ?r))"
    by simp
  have "key j \<le> key ?r" if "j < n" for j
  proof -
    from r that have a: "j < ?r \<Longrightarrow> key j < key ?r" and b: "?r < j \<Longrightarrow> key j \<le> key ?r"
      by blast+
    consider "j < ?r" | "j = ?r" | "?r < j" by linarith
    then show ?thesis
    proof cases
      case 1
      then show ?thesis using a by simp
    next
      case 2
      then show ?thesis by simp
    next
      case 3
      then show ?thesis using b by simp
    qed
  qed
  with r show ?thesis by simp
qed

lemma filter_label_unique:
  assumes "distinct xs" and "i < length xs"
  shows "filter (\<lambda>j. xs ! j = xs ! i) [0..<length xs] = [i]"
proof -
  have s: "set (filter (\<lambda>j. xs ! j = xs ! i) [0..<length xs]) = {i}"
    using assms by (auto simp: nth_eq_iff_index_eq)
  have "sorted (filter (\<lambda>j. xs ! j = xs ! i) [0..<length xs])"
    by (simp add: sorted_wrt_filter)
  moreover have "distinct (filter (\<lambda>j. xs ! j = xs ! i) [0..<length xs])"
    by simp
  moreover have "sorted [i]" "distinct [i]" "set [i] = {i}" by simp_all
  ultimately show ?thesis
    using s by (metis sorted_distinct_set_unique)
qed

lemma map_of_row_at:
  "map_of (row_at f i) c = map_option (\<lambda>v. v ! i) (map_of (columns f) c)"
  using map_of_map_snd [where g = "\<lambda>v. v ! i"] by (simp add: row_at_def)

lemma filter_non_null_nums:
  "filter (\<lambda>i. map Num ns ! i \<noteq> Null) [0..<length ns] = [0..<length ns]"
  by (simp add: filter_id_conv)

lemma idx_extreme_nums:
  assumes "0 < length ns"
  shows "idx_extreme want_max ix (map Num ns) =
         Inr (ix ! argbest (if want_max then (\<lambda>a b. cell_lt b a) else cell_lt) (map Num ns) 0
                     [1..<length ns])"
proof -
  have u: "[0..<length ns] = 0 # [1..<length ns]"
    using assms by (simp add: upt_conv_Cons)
  have f: "filter (\<lambda>i. map Num ns ! i \<noteq> Null) [0..<length (map Num ns)] = 0 # [1..<length ns]"
    using filter_non_null_nums [of ns] u by simp
  have a: "list_all (\<lambda>j. is_num (map Num ns ! j)) (0 # [1..<length ns])"
    unfolding u [symmetric] by (simp add: list_all_iff is_num_def)
  show ?thesis
    unfolding idx_extreme_def f using a by simp
qed

lemma argbest_max_nums:
  assumes "0 < length ns"
  shows "argbest (\<lambda>a b. cell_lt b a) (map Num ns) 0 [1..<length ns] < length ns \<and>
         (\<forall>j<length ns.
            (j < argbest (\<lambda>a b. cell_lt b a) (map Num ns) 0 [1..<length ns] \<longrightarrow>
               ns ! j < ns ! argbest (\<lambda>a b. cell_lt b a) (map Num ns) 0 [1..<length ns]) \<and>
            ns ! j \<le> ns ! argbest (\<lambda>a b. cell_lt b a) (map Num ns) 0 [1..<length ns])"
proof -
  have "\<And>i j. i < length ns \<Longrightarrow> j < length ns \<Longrightarrow>
      cell_lt (map Num ns ! j) (map Num ns ! i) = (ns ! j < ns ! i)"
    by (auto simp: cell_lt_def)
  from argbest_from_zero [of "length ns" "\<lambda>a b. cell_lt b a" "map Num ns" "\<lambda>i. ns ! i",
      OF this assms]
  show ?thesis by simp
qed

lemma argbest_min_nums:
  assumes "0 < length ns"
  shows "argbest cell_lt (map Num ns) 0 [1..<length ns] < length ns \<and>
         (\<forall>j<length ns.
            (j < argbest cell_lt (map Num ns) 0 [1..<length ns] \<longrightarrow>
               ns ! argbest cell_lt (map Num ns) 0 [1..<length ns] < ns ! j) \<and>
            ns ! argbest cell_lt (map Num ns) 0 [1..<length ns] \<le> ns ! j)"
proof -
  have "\<And>i j. i < length ns \<Longrightarrow> j < length ns \<Longrightarrow>
      cell_lt (map Num ns ! i) (map Num ns ! j) = (- (ns ! j) < - (ns ! i))"
    by (auto simp: cell_lt_def)
  from argbest_from_zero [of "length ns" cell_lt "map Num ns" "\<lambda>i. - (ns ! i)",
      OF this assms]
  show ?thesis by simp
qed

lemma insight_monthly_trend_run:
  assumes dc: "map_of (columns (frames w ! df)) date_col = Some ds"
    and vc: "map_of (columns (frames w ! df)) value_col = Some (map Num ns)"
    and ne: "date_col \<noteq> value_col"
    and cv: "to_datetime conv ds = Inr (map Date dts)"
    and len: "length ns = length (index (frames w ! df))" "length dts = length ns"
    and pos: "0 < length ns"
    and dist: "distinct (index (frames w ! df))"
  shows "insight_monthly_trend conv df date_col value_col w =
    (Inr (),
     w\<lparr>frames := frames w @
         [(frames w ! df)\<lparr>columns :=
            AList.update date_col (map Date dts) (columns (frames w ! df))\<rparr>],
       trace := trace w @
         [DisplayMarkdown (insight_text
            \<lparr>direction =
               (if ns ! 0 \<le> ns ! (length ns - 1) then ''upward'' else ''downward''),
             start_month = strftime_ym (dts ! 0),
             start_val = Some (ns ! 0),
             end_month = strftime_ym (dts ! (length ns - 1)),
             end_val = Some (ns ! (length ns - 1)),
             peak_month =
               strftime_ym (dts ! argbest (\<lambda>a b. cell_lt b a) (map Num ns) 0 [1..<length ns]),
             peak_val =
               Some (ns ! argbest (\<lambda>a b. cell_lt b a) (map Num ns) 0 [1..<length ns]),
             low_month = strftime_ym (dts ! argbest cell_lt (map Num ns) 0 [1..<length ns]),
             low_val = Some (ns ! argbest cell_lt (map Num ns) 0 [1..<length ns])\<rparr>)]\<rparr>)"
proof -
  let ?ix = "index (frames w ! df)"
  let ?imax = "argbest (\<lambda>a b. cell_lt b a) (map Num ns) 0 [1..<length ns]"
  let ?imin = "argbest cell_lt (map Num ns) 0 [1..<length ns]"
  have imax: "?imax < length ns" using argbest_max_nums [OF pos] by simp
  have imin: "?imin < length ns" using argbest_min_nums [OF pos] by simp
  have ex1: "idxmax ?ix (map Num ns) = Inr (?ix ! ?imax)"
    using idx_extreme_nums [OF pos, of True ?ix] by (simp add: idxmax_def)
  have ex2: "idxmin ?ix (map Num ns) = Inr (?ix ! ?imin)"
    using idx_extreme_nums [OF pos, of False ?ix] by (simp add: idxmin_def)
  have f1: "filter (\<lambda>j. ?ix ! j = ?ix ! ?imax) [0..<length ?ix] = [?imax]"
    using filter_label_unique [OF dist, of ?imax] imax len by simp
  have f2: "filter (\<lambda>j. ?ix ! j = ?ix ! ?imin) [0..<length ?ix] = [?imin]"
    using filter_label_unique [OF dist, of ?imin] imin len by simp
  have last: "nat (int (length ?ix) - 1) = length ns - 1"
    using len by simp
  have lastlt: "length ns - 1 < length ns" using pos by simp
  have fm: "fmt_month conv (Scalar (Date dt)) = Inr (strftime_ym dt)" for dt
    by (simp add: fmt_month_def to_datetime_cell_def)
  have pf: "py_float (Scalar (Num k)) = Inr (Some k)" for k
    by (simp add: py_float_def)
  show ?thesis
    using dc vc ne cv pos len imax imin lastlt ex1 ex2 f1 f2 last
    by (simp add: insight_monthly_trend_def m_defs loc_def iloc_def Let_def nth_append
        update_conv' map_of_row_at series_getitem_def loc_getitem_def fm pf float_ge_def)
qed

lemma four_values_positions:
  "peak_pos [100, 150, 90, 200] = 3"
  "low_pos [100, 150, 90, 200] = 2"
  "peak_pos [90, 100, 200, 150] = 2"
  "low_pos [90, 100, 200, 150] = 0"
  by code_simp+

text \<open>
  C2. On a table of four rows whose value column holds 100, 150, 90, 200 in row order
  and whose date column converts to the dates \<open>m1\<close>, \<open>m2\<close>, \<open>m3\<close>, \<open>m4\<close> (four
  consecutive months in particular), with distinct row labels, \<open>insight_monthly_trend\<close>
  displays one paragraph: direction upward, from the month of \<open>m1\<close> (100) to the month of
  \<open>m4\<close> (200), highest month the fourth (200), lowest month the third (90).
\<close>

theorem insight_monthly_trend_four_months:
  assumes "map_of (columns (frames w ! df)) date_col = Some ds"
    and "map_of (columns (frames w ! df)) value_col = Some [Num 100, Num 150, Num 90, Num 200]"
    and "date_col \<noteq> value_col"
    and "to_datetime conv ds = Inr [Date m1, Date m2, Date m3, Date m4]"
    and "length (index (frames w ! df)) = 4"
    and "distinct (index (frames w ! df))"
  shows "fst (insight_monthly_trend conv df date_col value_col w) = Inr () \<and>
         trace (snd (insight_monthly_trend conv df date_col value_col w)) =
           trace w @
           [DisplayMarkdown (insight_text
              \<lparr>direction = ''upward'',
               start_month = strftime_ym m1, start_val = Some 100,
               end_month = strftime_ym m4, end_val = Some 200,
               peak_month = strftime_ym m4, peak_val = Some 200,
               low_month = strftime_ym m3, low_val = Some 90\<rparr>)]"
proof -
  have vc: "map_of (columns (frames w ! df)) value_col = Some (map Num [100, 150, 90, 200])"
    using assms(2) by simp
  have cv: "to_datetime conv ds = Inr (map Date [m1, m2, m3, m4])"
    using assms(4) by simp
  have l1: "length [100, 150, 90, 200 :: int] = length (index (frames w ! df))"
    using assms(5) by simp
  have l2: "length [m1, m2, m3, m4] = length [100, 150, 90, 200 :: int]"
    by simp
  have pos: "0 < length [100, 150, 90, 200 :: int]"
    by simp
  note run = insight_monthly_trend_run [OF assms(1) vc assms(3) cv l1 l2 pos assms(6)]
  show ?thesis
    unfolding run
    using four_values_positions(1, 2)
    by (simp add: peak_pos_def low_pos_def)
qed

lemma monthly_sales_facts:
  "map_of (columns (frames \<lparr>frames = [monthly_sales], trace = []\<rparr> ! 0)) ''MonthStart'' =
     Some [Date (2024, 1, 1), Str ''2024-02-01'', Date (2024, 3, 1), Date (2024, 4, 1)]"
  "map_of (columns (frames \<lparr>frames = [monthly_sales], trace = []\<rparr> ! 0)) ''TotalSales'' =
     Some [Num 100, Num 150, Num 90, Num 200]"
  "''MonthStart'' \<noteq> ''TotalSales''"
  "to_datetime conv_sample
     [Date (2024, 1, 1), Str ''2024-02-01'', Date (2024, 3, 1), Date (2024, 4, 1)] =
   Inr [Date (2024, 1, 1), Date (2024, 2, 1), Date (2024, 3, 1), Date (2024, 4, 1)]"
  "length (index (frames \<lparr>frames = [monthly_sales], trace = []\<rparr> ! 0)) = 4"
  "distinct (index (frames \<lparr>frames = [monthly_sales], trace = []\<rparr> ! 0))"
  by (simp_all add: monthly_sales_def to_datetime_cell_def conv_sample_def)

lemma monthly_sales_text:
  "insight_text
     \<lparr>direction = ''upward'',
      start_month = strftime_ym (2024, 1, 1), start_val = Some 100,
      end_month = strftime_ym (2024, 4, 1), end_val = Some 200,
      peak_month = strftime_ym (2024, 4, 1), peak_val = Some 200,
      low_month = strftime_ym (2024, 3, 1), low_val = Some 90\<rparr> =
   ''**Insight:** The overall monthly sales trend is **upward** from **2024-01** (100) to **2024-04** (200).  '' @
   [CHR 0x0A] @ ''- **Highest month:** **2024-04** (200)  '' @
   [CHR 0x0A] @ ''- **Lowest month:** **2024-03** (90)''"
  by code_simp

theorem insight_monthly_trend_four_months_witness:
  "fst (insight_monthly_trend conv_sample 0 ''MonthStart'' ''TotalSales''
         \<lparr>frames = [monthly_sales], trace = []\<rparr>) = Inr () \<and>
   trace (snd (insight_monthly_trend conv_sample 0 ''MonthStart'' ''TotalSales''
         \<lparr>frames = [monthly_sales], trace = []\<rparr>)) =
     [DisplayMarkdown
       (''**Insight:** The overall monthly sales trend is **upward** from **2024-01** (100) to **2024-04** (200).  '' @
        [CHR 0x0A] @ ''- **Highest month:** **2024-04** (200)  '' @
        [CHR 0x0A] @ ''- **Lowest month:** **2024-03** (90)'')]"
  using insight_monthly_trend_four_months [OF monthly_sales_facts]
  unfolding monthly_sales_text by simp

lemma monthly_shuffled_facts:
  "map_of (columns (frames \<lparr>frames = [monthly_shuffled], trace = []\<rparr> ! 0)) ''MonthStart'' =
     Some [Date (2024, 3, 1), Date (2024, 1, 1), Date (2024, 4, 1), Str ''2024-02-01'']"
  "map_of (columns (frames \<lparr>frames = [monthly_shuffled], trace = []\<rparr> ! 0)) ''TotalSales'' =
     Some (map Num [90, 100, 200, 150])"
  "''MonthStart'' \<noteq> ''TotalSales''"
  "to_datetime conv_sample
     [Date (2024, 3, 1), Date (2024, 1, 1), Date (2024, 4, 1), Str ''2024-02-01''] =
   Inr (map Date [(2024, 3, 1), (2024, 1, 1), (2024, 4, 1), (2024, 2, 1)])"
  "length [90, 100, 200, 150 :: int] =
     length (index (frames \<lparr>frames = [monthly_shuffled], trace = []\<rparr> ! 0))"
  "length [(2024, 3, 1), (2024, 1, 1), (2024, 4, 1), (2024 :: nat, 2 :: nat, 1 :: nat)] =
     length [90, 100, 200, 150 :: int]"
  "0 < length [90, 100, 200, 150 :: int]"
  "distinct (index (frames \<lparr>frames = [monthly_shuffled], trace = []\<rparr> ! 0))"
  by (simp_all add: monthly_shuffled_def to_datetime_cell_def conv_sample_def)

lemma monthly_shuffled_text:
  "insight_text
     \<lparr>direction = ''upward'',
      start_month = strftime_ym (2024, 3, 1), start_val = Some 90,
      end_month = strftime_ym (2024, 2, 1), end_val = Some 150,
      peak_month = strftime_ym (2024, 4, 1), peak_val = Some 200,
      low_month = strftime_ym (2024, 3, 1), low_val = Some 90\<rparr> =
   ''**Insight:** The overall monthly sales trend is **upward** from **2024-03** (90) to **2024-02** (150).  '' @
   [CHR 0x0A] @ ''- **Highest month:** **2024-04** (200)  '' @
   [CHR 0x0A] @ ''- **Lowest month:** **2024-03** (90)''"
  by code_simp

text \<open>
  C10. \<open>insight_monthly_trend\<close> does not sort. On a non-empty table with distinct row
  labels, a date column that converts to dates and a value column of integers, the
  paragraph it displays takes its start month and value from the first row and its end
  month and value from the last row, by position, in the order the rows were given;
  the highest and lowest months are those of rows that hold the largest and the
  smallest value of the column. (On the unsorted example below the reported start month
  2024-03 is not the earliest month, 2024-01.)
\<close>

theorem insight_monthly_trend_positional:
  assumes "map_of (columns (frames w ! df)) date_col = Some ds"
    and "map_of (columns (frames w ! df)) value_col = Some (map Num ns)"
    and "date_col \<noteq> value_col"
    and "to_datetime conv ds = Inr (map Date dts)"
    and "length ns = length (index (frames w ! df))"
    and "length dts = length ns"
    and "0 < length ns"
    and "distinct (index (frames w ! df))"
  shows "peak_pos ns < length ns \<and> low_pos ns < length ns \<and>
         (\<forall>j<length ns. ns ! j \<le> ns ! peak_pos ns) \<and>
         (\<forall>j<length ns. ns ! low_pos ns \<le> ns ! j) \<and>
         fst (insight_monthly_trend conv df date_col value_col w) = Inr () \<and>
         trace (snd (insight_monthly_trend conv df date_col value_col w)) =
           trace w @
           [DisplayMarkdown (insight_text
              \<lparr>direction = (if hd ns \<le> last ns then ''upward'' else ''downward''),
               start_month = strftime_ym (hd dts), start_val = Some (hd ns),
               end_month = strftime_ym (last dts), end_val = Some (last ns),
               peak_month = strftime_ym (dts ! peak_pos ns), peak_val = Some (ns ! peak_pos ns),
               low_month = strftime_ym (dts ! low_pos ns), low_val = Some (ns ! low_pos ns)\<rparr>)]"
proof -
  have ne: "ns \<noteq> []" "dts \<noteq> []"
    using assms(6, 7) by auto
  have hl: "hd ns = ns ! 0" "last ns = ns ! (length ns - 1)"
    "hd dts = dts ! 0" "last dts = dts ! (length ns - 1)"
    using ne assms(6) by (simp_all add: hd_conv_nth last_conv_nth)
  note run = insight_monthly_trend_run [OF assms]
  have a: "peak_pos ns < length ns \<and> (\<forall>j<length ns. ns ! j \<le> ns ! peak_pos ns)"
    using argbest_max_nums [OF assms(7)] by (simp add: peak_pos_def)
  have b: "low_pos ns < length ns \<and> (\<forall>j<length ns. ns ! low_pos ns \<le> ns ! j)"
    using argbest_min_nums [OF assms(7)] by (simp add: low_pos_def)
  have c: "fst (insight_monthly_trend conv df date_col value_col w) = Inr () \<and>
         trace (snd (insight_monthly_trend conv df date_col value_col w)) =
           trace w @
           [DisplayMarkdown (insight_text
              \<lparr>direction = (if hd ns \<le> last ns then ''upward'' else ''downward''),
               start_month = strftime_ym (hd dts), start_val = Some (hd ns),
               end_month = strftime_ym (last dts), end_val = Some (last ns),
               peak_month = strftime_ym (dts ! peak_pos ns), peak_val = Some (ns ! peak_pos ns),
               low_month = strftime_ym (dts ! low_pos ns), low_val = Some (ns ! low_pos ns)\<rparr>)]"
    unfolding run hl peak_pos_def low_pos_def by simp
  from a b c show ?thesis by blast
qed

theorem insight_monthly_trend_positional_witness:
  "fst (insight_monthly_trend conv_sample 0 ''MonthStart'' ''TotalSales''
         \<lparr>frames = [monthly_shuffled], trace = []\<rparr>) = Inr () \<and>
   trace (snd (insight_monthly_trend conv_sample 0 ''MonthStart'' ''TotalSales''
         \<lparr>frames = [monthly_shuffled], trace = []\<rparr>)) =
     [DisplayMarkdown
       (''**Insight:** The overall monthly sales trend is **upward** from **2024-03** (90) to **2024-02** (150).  '' @
        [CHR 0x0A] @ ''- **Highest month:** **2024-04** (200)  '' @
        [CHR 0x0A] @ ''- **Lowest month:** **2024-03** (90)'')] \<and>
   cell_lt (Date (2024, 1, 1)) (Date (2024, 3, 1))"
proof -
  note t = insight_monthly_trend_positional [OF monthly_shuffled_facts]
  have a: "fst (insight_monthly_trend conv_sample 0 ''MonthStart'' ''TotalSales''
         \<lparr>frames = [monthly_shuffled], trace = []\<rparr>) = Inr ()"
    using t by blast
  have "trace (snd (insight_monthly_trend conv_sample 0 ''MonthStart'' ''TotalSales''
         \<lparr>frames = [monthly_shuffled], trace = []\<rparr>)) =
       trace \<lparr>frames = [monthly_shuffled], trace = []\<rparr> @
       [DisplayMarkdown (insight_text
          \<lparr>direction = (if hd [90, 100, 200, 150 :: int] \<le> last [90, 100, 200, 150]
                         then ''upward'' else ''downward''),
           start_month = strftime_ym (hd [(2024, 3, 1), (2024, 1, 1), (2024, 4, 1), (2024, 2, 1)]),
           start_val = Some (hd [90, 100, 200, 150]),
           end_month = strftime_ym (last [(2024, 3, 1), (2024, 1, 1), (2024, 4, 1), (2024, 2, 1)]),
           end_val = Some (last [90, 100, 200, 150]),
           peak_month = strftime_ym ([(2024, 3, 1), (2024, 1, 1), (2024, 4, 1), (2024, 2, 1)] !
                                      peak_pos [90, 100, 200, 150]),
           peak_val = Some ([90, 100, 200, 150] ! peak_pos [90, 100, 200, 150]),
           low_month = strftime_ym ([(2024, 3, 1), (2024, 1, 1), (2024, 4, 1), (2024, 2, 1)] !
                                     low_pos [90, 100, 200, 150]),
           low_val = Some ([90, 100, 200, 150] ! low_pos [90, 100, 200, 150])\<rparr>)]"
    using t by blast
  then have b: "trace (snd (insight_monthly_trend conv_sample 0 ''MonthStart'' ''TotalSales''
         \<lparr>frames = [monthly_shuffled], trace = []\<rparr>)) =
     [DisplayMarkdown
       (''**Insight:** The overall monthly sales trend is **upward** from **2024-03** (90) to **2024-02** (150).  '' @
        [CHR 0x0A] @ ''- **Highest month:** **2024-04** (200)  '' @
        [CHR 0x0A] @ ''- **Lowest month:** **2024-03** (90)'')]"
    unfolding four_values_positions
    using monthly_shuffled_text by simp
  have c: "cell_lt (Date (2024, 1, 1)) (Date (2024, 3, 1))"
    by (simp add: cell_lt_def)
  from a b c show ?thesis by (intro conjI)
qed

subsection \<open>Missing columns\<close>

lemma scatter_plot_missing:
  assumes "map_of (columns (frames w ! df)) x = None \<or> map_of (columns (frames w ! df)) y = None"
  shows "\<exists>c \<in> {x, y}. map_of (columns (frames w ! df)) c = None \<and>
           fst (scatter_plot df x y title xl yl fs alpha w) = Inl (KeyError c)"
  using assms
  by (auto simp: scatter_plot_def m_defs split: option.splits)

lemma bar_vertical_missing:
  assumes "\<exists>c \<in> {x, y} \<union> (case sort_by of None \<Rightarrow> {} | Some s \<Rightarrow> if s = [] then {} else {s}).
             map_of (columns (frames w ! df)) c = None"
  shows "(\<exists>c \<in> {x, y} \<union> (case sort_by of None \<Rightarrow> {} | Some s \<Rightarrow> if s = [] then {} else {s}).
            map_of (columns (frames w ! df)) c = None \<and>
            fst (bar_vertical argsort df x y title xl yl sort_by asc fs rot w) = Inl (KeyError c)) \<or>
         (\<exists>s ks. sort_by = Some s \<and> map_of (columns (frames w ! df)) s = Some ks \<and>
            \<not> comparable (non_nans ks asc) \<and>
            fst (bar_vertical argsort df x y title xl yl sort_by asc fs rot w) = Inl TypeError)"
  using assms
  by (auto simp: bar_vertical_def sort_values_def m_defs Let_def nth_append map_of_take_rows
      split: option.splits if_splits)

lemma bar_horizontal_missing:
  assumes "map_of (columns (frames w ! df)) x = None \<or> map_of (columns (frames w ! df)) y = None"
  shows "(\<exists>c \<in> {x, y}. map_of (columns (frames w ! df)) c = None \<and>
            fst (bar_horizontal argsort df x y title xl yl desc fs w) = Inl (KeyError c)) \<or>
         (\<exists>ks. map_of (columns (frames w ! df)) x = Some ks \<and>
            \<not> comparable (non_nans ks (\<not> desc)) \<and>
            fst (bar_horizontal argsort df x y title xl yl desc fs w) = Inl TypeError)"
  using assms
  by (auto simp: bar_horizontal_def sort_values_def m_defs Let_def nth_append map_of_take_rows
      split: option.splits if_splits)

lemma line_plot_monthly_missing:
  assumes "map_of (columns (frames w ! df)) date_col = None \<or>
           map_of (columns (frames w ! df)) value_col = None"
  shows "(\<exists>c \<in> {date_col, value_col}. map_of (columns (frames w ! df)) c = None \<and>
            fst (line_plot_monthly conv argsort df date_col value_col title xl yl mi fs marker w) =
              Inl (KeyError c)) \<or>
         (\<exists>ds e. map_of (columns (frames w ! df)) date_col = Some ds \<and>
            to_datetime conv ds = Inl e \<and>
            fst (line_plot_monthly conv argsort df date_col value_col title xl yl mi fs marker w) =
              Inl e)"
proof (cases "map_of (columns (frames w ! df)) date_col")
  case None
  then show ?thesis
    by (auto simp: line_plot_monthly_def m_defs)
next
  case (Some ds)
  with assms have v: "map_of (columns (frames w ! df)) value_col = None"
    and ne: "value_col \<noteq> date_col" by auto
  show ?thesis
  proof (cases "to_datetime conv ds")
    case (Inl e)
    with Some show ?thesis
      by (auto simp: line_plot_monthly_def m_defs nth_append)
  next
    case (Inr ds')
    with Some v ne comparable_to_datetime [OF Inr, of True] show ?thesis
      by (auto simp: line_plot_monthly_def sort_values_def m_defs Let_def nth_append
          map_of_take_rows update_conv')
  qed
qed

lemma insight_monthly_trend_missing:
  assumes "map_of (columns (frames w ! df)) date_col = None \<or>
           map_of (columns (frames w ! df)) value_col = None"
  shows "(\<exists>c \<in> {date_col, value_col}. map_of (columns (frames w ! df)) c = None \<and>
            fst (insight_monthly_trend conv df date_col value_col w) = Inl (KeyError c)) \<or>
         (\<exists>ds e. map_of (columns (frames w ! df)) date_col = Some ds \<and>
            to_datetime conv ds = Inl e \<and>
            fst (insight_monthly_trend conv df date_col value_col w) = Inl e)"
proof (cases "map_of (columns (frames w ! df)) date_col")
  case None
  then show ?thesis
    by (auto simp: insight_monthly_trend_def m_defs)
next
  case (Some ds)
  with assms have v: "map_of (columns (frames w ! df)) value_col = None"
    and ne: "value_col \<noteq> date_col" by auto
  show ?thesis
  proof (cases "to_datetime conv ds")
    case (Inl e)
    with Some show ?thesis
      by (auto simp: insight_monthly_trend_def m_defs nth_append)
  next
    case (Inr ds')
    with Some v ne show ?thesis
      by (auto simp: insight_monthly_trend_def m_defs nth_append update_conv')
  qed
qed

lemma bars_loop_frames: "frames (snd (bars_loop d m n i cls w)) = frames w"
  by (induction cls arbitrary: i w) (auto simp: m_defs split: option.splits)

lemma bars_loop_missing:
  assumes "\<exists>c \<in> fst ` set cls. map_of (columns (frames w ! d)) c = None"
  shows "\<exists>c \<in> fst ` set cls. map_of (columns (frames w ! d)) c = None \<and>
           fst (bars_loop d m n i cls w) = Inl (KeyError c)"
  using assms
proof (induction cls arbitrary: i w)
  case Nil
  then show ?case by simp
next
  case (Cons cl rest)
  show ?case
  proof (cases "map_of (columns (frames w ! d)) (fst cl)")
    case None
    then show ?thesis by (auto simp: m_defs)
  next
    case (Some v)
    let ?w = "w\<lparr>trace := trace w @ [GroupBar i n m v (snd cl)]\<rparr>"
    from Some Cons.prems
    have "\<exists>c \<in> fst ` set rest. map_of (columns (frames ?w ! d)) c = None"
      by auto
    from Cons.IH [OF this, of "Suc i"] Some show ?thesis
      by (auto simp: m_defs)
  qed
qed

lemma grouped_bar_wide_missing:
  assumes "\<exists>c \<in> {x} \<union> set y_cols. map_of (columns (frames w ! df)) c = None"
  shows "(\<exists>c \<in> {x} \<union> set y_cols. map_of (columns (frames w ! df)) c = None \<and>
            fst (grouped_bar_wide df x y_cols title xl yl lt fs rot labs w) = Inl (KeyError c)) \<or>
         (\<exists>l. labs = Some l \<and> length l \<noteq> length y_cols \<and>
            fst (grouped_bar_wide df x y_cols title xl yl lt fs rot labs w) =
              Inl (ValueError ''y_col_labels must have the same length as y_cols''))"
proof (cases "map_of (columns (frames w ! df)) x")
  case None
  then show ?thesis
    by (auto simp: grouped_bar_wide_def m_defs)
next
  case (Some xs)
  with assms have miss: "\<exists>c \<in> set y_cols. map_of (columns (frames w ! df)) c = None"
    by auto
  let ?ll = "case labs of Some l \<Rightarrow> l | None \<Rightarrow> y_cols"
  show ?thesis
  proof (cases "length ?ll = length y_cols")
    case False
    with Some show ?thesis
      by (cases labs) (auto simp: grouped_bar_wide_def m_defs Let_def nth_append)
  next
    case True
    let ?w = "w\<lparr>frames := frames w @ [frames w ! df], trace := trace w @ [Figure fs]\<rparr>"
    have fz: "fst ` set (zip y_cols ?ll) = set y_cols"
      using True by (metis map_fst_zip set_map)
    have "\<exists>c \<in> fst ` set (zip y_cols ?ll).
            map_of (columns (frames ?w ! length (frames w))) c = None"
      using miss unfolding fz by simp
    from bars_loop_missing [OF this, of "length (astype_str xs)" "length y_cols" 0]
    obtain c where c: "c \<in> set y_cols" "map_of (columns (frames w ! df)) c = None"
      "fst (bars_loop (length (frames w)) (length (astype_str xs)) (length y_cols) 0
              (zip y_cols ?ll) ?w) = Inl (KeyError c)"
      unfolding fz by auto
    have "fst (grouped_bar_wide df x y_cols title xl yl lt fs rot labs w) = Inl (KeyError c)"
      using Some True c(3)
      by (auto simp: grouped_bar_wide_def m_defs Let_def nth_append split: prod.splits sum.splits)
    with c show ?thesis by auto
  qed
qed

text \<open>
  C5 (as amended). When the table lacks a column the call asks for, each of the six
  functions raises, and never returns normally with an empty plot. The exception is the
  key error for a missing requested column, unless an earlier step of the same call
  raises first: the sort of \<open>bar_vertical\<close> and \<open>bar_horizontal\<close> on keys that cannot be
  compared (a type error), the date conversion of \<open>line_plot_monthly\<close> and
  \<open>insight_monthly_trend\<close> (the conversion's error), the label count check of
  \<open>grouped_bar_wide\<close> (its value error). \<open>scatter_plot\<close> has no earlier step.
\<close>

theorem missing_column_raises:
  "((\<exists>c \<in> {x, y} \<union> (case sort_by of None \<Rightarrow> {} | Some s \<Rightarrow> if s = [] then {} else {s}).
        map_of (columns (frames w ! df)) c = None) \<longrightarrow>
      (\<exists>c \<in> {x, y} \<union> (case sort_by of None \<Rightarrow> {} | Some s \<Rightarrow> if s = [] then {} else {s}).
          map_of (columns (frames w ! df)) c = None \<and>
          fst (bar_vertical argsort df x y title xl yl sort_by asc fs rot w) = Inl (KeyError c)) \<or>
      (\<exists>s ks. sort_by = Some s \<and> map_of (columns (frames w ! df)) s = Some ks \<and>
          \<not> comparable (non_nans ks asc) \<and>
          fst (bar_vertical argsort df x y title xl yl sort_by asc fs rot w) = Inl TypeError)) \<and>
   (map_of (columns (frames w ! df)) x = None \<or> map_of (columns (frames w ! df)) y = None \<longrightarrow>
      ((\<exists>c \<in> {x, y}. map_of (columns (frames w ! df)) c = None \<and>
          fst (bar_horizontal argsort df x y title xl yl desc fs w) = Inl (KeyError c)) \<or>
       (\<exists>ks. map_of (columns (frames w ! df)) x = Some ks \<and>
          \<not> comparable (non_nans ks (\<not> desc)) \<and>
          fst (bar_horizontal argsort df x y title xl yl desc fs w) = Inl TypeError)) \<and>
      (\<exists>c \<in> {x, y}. map_of (columns (frames w ! df)) c = None \<and>
          fst (scatter_plot df x y title xl yl fs alpha w) = Inl (KeyError c))) \<and>
   (map_of (columns (frames w ! df)) date_col = None \<or>
    map_of (columns (frames w ! df)) value_col = None \<longrightarrow>
      ((\<exists>c \<in> {date_col, value_col}. map_of (columns (frames w ! df)) c = None \<and>
          fst (line_plot_monthly conv argsort df date_col value_col title xlabel ylabel mi fs
                 marker w) = Inl (KeyError c)) \<or>
       (\<exists>ds e. map_of (columns (frames w ! df)) date_col = Some ds \<and>
          to_datetime conv ds = Inl e \<and>
          fst (line_plot_monthly conv argsort df date_col value_col title xlabel ylabel mi fs
                 marker w) = Inl e)) \<and>
      ((\<exists>c \<in> {date_col, value_col}. map_of (columns (frames w ! df)) c = None \<and>
          fst (insight_monthly_trend conv df date_col value_col w) = Inl (KeyError c)) \<or>
       (\<exists>ds e. map_of (columns (frames w ! df)) date_col = Some ds \<and>
          to_datetime conv ds = Inl e \<and>
          fst (insight_monthly_trend conv df date_col value_col w) = Inl e))) \<and>
   ((\<exists>c \<in> {x} \<union> set y_cols. map_of (columns (frames w ! df)) c = None) \<longrightarrow>
      (\<exists>c \<in> {x} \<union> set y_cols. map_of (columns (frames w ! df)) c = None \<and>
          fst (grouped_bar_wide df x y_cols title xl ylabel lt fs rot labs w) =
            Inl (KeyError c)) \<or>
      (\<exists>l. labs = Some l \<and> length l \<noteq> length y_cols \<and>
          fst (grouped_bar_wide df x y_cols title xl ylabel lt fs rot labs w) =
            Inl (ValueError ''y_col_labels must have the same length as y_cols'')))"
proof (intro conjI impI)
  assume "\<exists>c \<in> {x, y} \<union> (case sort_by of None \<Rightarrow> {} | Some s \<Rightarrow> if s = [] then {} else {s}).
        map_of (columns (frames w ! df)) c = None"
  then show "(\<exists>c \<in> {x, y} \<union> (case sort_by of None \<Rightarrow> {} | Some s \<Rightarrow> if s = [] then {} else {s}).
          map_of (columns (frames w ! df)) c = None \<and>
          fst (bar_vertical argsort df x y title xl yl sort_by asc fs rot w) = Inl (KeyError c)) \<or>
      (\<exists>s ks. sort_by = Some s \<and> map_of (columns (frames w ! df)) s = Some ks \<and>
          \<not> comparable (non_nans ks asc) \<and>
          fst (bar_vertical argsort df x y title xl yl sort_by asc fs rot w) = Inl TypeError)"
    by (rule bar_vertical_missing)
next
  assume "map_of (columns (frames w ! df)) x = None \<or> map_of (columns (frames w ! df)) y = None"
  then show "(\<exists>c \<in> {x, y}. map_of (columns (frames w ! df)) c = None \<and>
          fst (bar_horizontal argsort df x y title xl yl desc fs w) = Inl (KeyError c)) \<or>
       (\<exists>ks. map_of (columns (frames w ! df)) x = Some ks \<and>
          \<not> comparable (non_nans ks (\<not> desc)) \<and>
          fst (bar_horizontal argsort df x y title xl yl desc fs w) = Inl TypeError)"
    by (rule bar_horizontal_missing)
next
  assume "map_of (columns (frames w ! df)) x = None \<or> map_of (columns (frames w ! df)) y = None"
  then show "\<exists>c \<in> {x, y}. map_of (columns (frames w ! df)) c = None \<and>
          fst (scatter_plot df x y title xl yl fs alpha w) = Inl (KeyError c)"
    by (rule scatter_plot_missing)
next
  assume "map_of (columns (frames w ! df)) date_col = None \<or>
    map_of (columns (frames w ! df)) value_col = None"
  then show "(\<exists>c \<in> {date_col, value_col}. map_of (columns (frames w ! df)) c = None \<and>
          fst (line_plot_monthly conv argsort df date_col value_col title xlabel ylabel mi fs
                 marker w) = Inl (KeyError c)) \<or>
       (\<exists>ds e. map_of (columns (frames w ! df)) date_col = Some ds \<and>
          to_datetime conv ds = Inl e \<and>
          fst (line_plot_monthly conv argsort df date_col value_col title xlabel ylabel mi fs
                 marker w) = Inl e)"
    by (rule line_plot_monthly_missing)
next
  assume "map_of (columns (frames w ! df)) date_col = None \<or>
    map_of (columns (frames w ! df)) value_col = None"
  then show "(\<exists>c \<in> {date_col, value_col}. map_of (columns (frames w ! df)) c = None \<and>
          fst (insight_monthly_trend conv df date_col value_col w) = Inl (KeyError c)) \<or>
       (\<exists>ds e. map_of (columns (frames w ! df)) date_col = Some ds \<and>
          to_datetime conv ds = Inl e \<and>
          fst (insight_monthly_trend conv df date_col value_col w) = Inl e)"
    by (rule insight_monthly_trend_missing)
next
  assume "\<exists>c \<in> {x} \<union> set y_cols. map_of (columns (frames w ! df)) c = None"
  then show "(\<exists>c \<in> {x} \<union> set y_cols. map_of (columns (frames w ! df)) c = None \<and>
          fst (grouped_bar_wide df x y_cols title xl ylabel lt fs rot labs w) =
            Inl (KeyError c)) \<or>
      (\<exists>l. labs = Some l \<and> length l \<noteq> length y_cols \<and>
          fst (grouped_bar_wide df x y_cols title xl ylabel lt fs rot labs w) =
            Inl (ValueError ''y_col_labels must have the same length as y_cols''))"
    by (rule grouped_bar_wide_missing)
qed

lemma sales_wide_cols:
  "map_of (columns sales_wide) ''Area'' = None"
  "map_of (columns sales_wide) ''Q1'' = Some [Num 10, Num 20]"
  "map_of (columns sales_wide) ''Q3'' = None"
  "map_of (columns sales_wide) ''Region'' = Some [Str ''East'', Str ''West'']"
  by (simp_all add: sales_wide_def)

theorem missing_column_raises_witness:
  "fst (bar_vertical argsort_stable 0 ''Area'' ''Q1'' ''Sales'' None None None False (10, 5) 0
         \<lparr>frames = [sales_wide], trace = []\<rparr>) = Inl (KeyError ''Area'') \<and>
   fst (bar_horizontal argsort_stable 0 ''Area'' ''Q1'' ''Sales'' None None True (10, 5)
         \<lparr>frames = [sales_wide], trace = []\<rparr>) = Inl (KeyError ''Area'') \<and>
   fst (scatter_plot 0 ''Area'' ''Q1'' ''Sales'' None None (10, 5) (7 / 10)
         \<lparr>frames = [sales_wide], trace = []\<rparr>) = Inl (KeyError ''Area'') \<and>
   fst (line_plot_monthly conv_sample argsort_stable 0 ''Area'' ''Q1'' ''Sales'' ''Month''
         ''Value'' 3 (10, 5) ''o'' \<lparr>frames = [sales_wide], trace = []\<rparr>) =
     Inl (KeyError ''Area'') \<and>
   fst (insight_monthly_trend conv_sample 0 ''Area'' ''Q1''
         \<lparr>frames = [sales_wide], trace = []\<rparr>) = Inl (KeyError ''Area'') \<and>
   fst (grouped_bar_wide 0 ''Area'' [''Q1''] ''Sales'' None ''Value'' [] (10, 5) 0 None
         \<lparr>frames = [sales_wide], trace = []\<rparr>) = Inl (KeyError ''Area'')"
  using missing_column_raises
    [where w = "\<lparr>frames = [sales_wide], trace = []\<rparr>" and df = 0 and x = "''Area''"
       and y = "''Q1''" and sort_by = None and date_col = "''Area''" and value_col = "''Q1''"
       and y_cols = "[''Q1'']" and labs = None and argsort = argsort_stable
       and conv = conv_sample and title = "''Sales''" and xl = None and yl = None
       and asc = False and fs = "(10, 5)" and rot = 0 and desc = True and alpha = "7 / 10"
       and xlabel = "''Month''" and ylabel = "''Value''" and mi = 3 and marker = "''o''"
       and lt = "[]"]
  by (simp add: sales_wide_cols)

text \<open>
  The claim as stated (always a key error) fails when an earlier check fails first: the
  table lacks the requested column \<open>Q3\<close>, but the label list has the wrong length and
  the exception is the value error.
\<close>

theorem grouped_bar_wide_missing_column_value_error:
  "map_of (columns sales_wide) ''Q3'' = None \<and>
   fst (grouped_bar_wide 0 ''Region'' [''Q1'', ''Q3''] ''Sales'' None ''Value'' [] (11, 5) 0
         (Some [''first quarter'']) \<lparr>frames = [sales_wide], trace = []\<rparr>) =
     Inl (ValueError ''y_col_labels must have the same length as y_cols'') \<and>
   (\<forall>c. fst (grouped_bar_wide 0 ''Region'' [''Q1'', ''Q3''] ''Sales'' None ''Value'' [] (11, 5) 0
         (Some [''first quarter'']) \<lparr>frames = [sales_wide], trace = []\<rparr>) \<noteq> Inl (KeyError c))"
  by (simp add: grouped_bar_wide_def m_defs sales_wide_def)

end
